theory Spec2Isabelle
  imports Main
begin

section \<open>EasyAgents: the coordination core\<close>

text \<open>
  A shallow embedding of the three coordinators of EasyAgents (\<open>TaskManager\<close>,
  \<open>LockManager\<close>, \<open>AgentManager\<close>) and of the \<open>WorkflowStore\<close> they work on.

  Conventions of the embedding.
  \<^item> A timestamp is the number of milliseconds since the epoch (\<open>int\<close>). The source stores
    \<open>Date.toISOString()\<close> strings and reads them back with \<open>new Date(s).getTime()\<close>; that
    round trip is exact at millisecond precision.
  \<^item> A synchronous call reads the clock a few times in a row; the model hands the call one
    reading \<open>now\<close>, a valid time. A time computed from an argument is checked as
    \<open>toISOString\<close> checks it. \<open>waitForLock\<close>, the only call that suspends, gets one reading per poll.
  \<^item> Generated identifiers (\<open>Date.now\<close> and \<open>Math.random\<close> based) are parameters.
  \<^item> A JavaScript object used as a dictionary is a map. \<open>claimTask\<close> and \<open>acquireLock\<close>
    read their keys with \<open>get_property\<close>, which follows the prototype chain of a plain
    object; for the other calls keys are assumed not to be names of \<open>Object.prototype\<close>
    members.
  \<^item> \<open>store.load()\<close> parses the workflow file anew at every call, so every call returns a
    fresh copy that shares nothing with an earlier one; \<open>store.save(w)\<close> replaces the file.
    The store is passed explicitly and returned updated. \<open>load\<close> throws when the project
    is not initialised: that is the error \<open>NotInitialized\<close>. The other exceptions a call
    can throw are \<open>RangeError\<close> and \<open>TypeError\<close>; a call that throws has written nothing.
  \<^item> Truthiness tests of the source (\<open>if (s)\<close>, \<open>a || b\<close>) are written out: \<open>null\<close>,
    \<open>undefined\<close>, the empty string and the number \<open>0\<close> are falsy. Numbers are integers;
    \<open>NaN\<close> is not represented. An optional field or argument is an \<open>option\<close>.
\<close>

subsection \<open>Types (types/index.ts)\<close>

datatype TaskStatus = Pending | In_progress | Completed | Blocked | Failed
datatype TaskType = Task_t | Validation_t | Refactor_t | Review_t
datatype FileOperationType = Create_op | Modify_op | Delete_op
datatype AgentStatus = Active | Inactive | Terminated
datatype SuggestionPriority = Low | Medium | High

record TaskFile =
  file_path :: string
  file_type :: FileOperationType
  file_methods :: "string list option"

record TaskResult =
  completed_at :: int
  summary :: string
  output_ref :: "string option"

record Task =
  task_id :: string
  task_name :: string
  task_description :: string
  task_status :: TaskStatus
  task_priority :: int
  task_assigned_agent :: "string option"
  task_dependencies :: "string list"
  task_dependents :: "string list"
  task_context_from :: "string list option"
  task_files :: "TaskFile list"
  task_result :: "TaskResult option"
  task_async_execution :: "bool option"
  task_task_type :: "TaskType option"
  task_condition :: "(string \<times> string list) list option"
  task_created_at :: int
  task_updated_at :: int

record FileLock =
  locked_by :: string
  locked_at :: int
  expires_at :: int
  lock_methods :: "string list"
  lock_reason :: string
  lock_task_id :: "string option"

record FileModification =
  mod_file :: string
  mod_method :: "string option"
  modified_by :: string
  modified_at :: int
  lines_changed :: string
  mod_reason :: string
  mod_task_id :: string

record RefactorSuggestion =
  sug_id :: string
  sug_file :: string
  sug_method :: "string option"
  sug_reason :: string
  suggested_by :: string
  sug_created_at :: int
  sug_priority :: SuggestionPriority

record Agent =
  agent_id :: string
  agent_name :: string
  claimed_tasks :: "string list"
  session_id :: "string option"
  agent_status :: AgentStatus
  last_active :: int
  agent_created_at :: int

record WorkflowConfig =
  lock_timeout :: int
  max_parallel_agents :: int
  auto_refactor_threshold :: int
  inactive_timeout :: int

record Workflow =
  version :: string
  project :: string
  created_at :: int
  updated_at :: int
  config :: WorkflowConfig
  agents :: "string \<rightharpoonup> Agent"
  tasks :: "string \<rightharpoonup> Task"
  locks :: "string \<rightharpoonup> FileLock"
  modifications :: "FileModification list"
  refactor_suggestions :: "RefactorSuggestion list"

record WaitInfo =
  wait_locked_by :: string
  wait_reason :: string
  expires_in_ms :: int
  wait_methods :: "string list"

record LockAcquireResult =
  acq_success :: bool
  acq_message :: string
  acq_lock :: "FileLock option"
  waitInfo :: "WaitInfo option"

record LockReleaseResult =
  rel_success :: bool
  rel_message :: string

record LockWaitResult =
  released :: bool
  wait_modifications :: "FileModification list option"
  wait_timeout :: "bool option"

record TaskClaimResult =
  claim_success :: bool
  claim_message :: string
  claim_task :: "Task option"
  claim_agent_id :: "string option"

record TaskCompleteResult =
  complete_success :: bool
  complete_message :: string
  unblocked_tasks :: "string list option"

record AgentTakeoverResult =
  takeover_success :: bool
  takeover_message :: string
  inherited_tasks :: "string list option"

definition DEFAULT_CONFIG :: WorkflowConfig where
  "DEFAULT_CONFIG = \<lparr>lock_timeout = 180000, max_parallel_agents = 5,
                      auto_refactor_threshold = 3, inactive_timeout = 600000\<rparr>"

definition createDefaultWorkflow :: "string \<Rightarrow> int \<Rightarrow> Workflow" where
  "createDefaultWorkflow projectName now =
     \<lparr>version = ''1.0'', project = projectName, created_at = now, updated_at = now,
      config = DEFAULT_CONFIG, agents = Map.empty, tasks = Map.empty, locks = Map.empty,
      modifications = [], refactor_suggestions = []\<rparr>"

subsection \<open>JavaScript values\<close>

text \<open>\<open>if (s)\<close> for \<open>s: string | null | undefined\<close>.\<close>

definition truthy :: "string option \<Rightarrow> bool" where
  "truthy s = (case s of None \<Rightarrow> False | Some v \<Rightarrow> v \<noteq> [])"

text \<open>
  \<open>object[key]\<close> on a plain object: an own property, else a member inherited from
  \<open>Object.prototype\<close> (a function, or for \<open>__proto__\<close> the prototype itself: truthy, and
  every field the coordinators read from it is \<open>undefined\<close>), else \<open>undefined\<close>.
\<close>

datatype 'a property = Own 'a | Inherited | Undefined_property

definition object_prototype_members :: "string list" where
  "object_prototype_members =
     [''constructor'', ''__defineGetter__'', ''__defineSetter__'', ''hasOwnProperty'',
      ''__lookupGetter__'', ''__lookupSetter__'', ''isPrototypeOf'', ''propertyIsEnumerable'',
      ''toString'', ''valueOf'', ''__proto__'', ''toLocaleString'']"

definition get_property :: "(string \<rightharpoonup> 'a) \<Rightarrow> string \<Rightarrow> 'a property" where
  "get_property object key =
     (case object key of
        Some v \<Rightarrow> Own v
      | None \<Rightarrow> if key \<in> set object_prototype_members then Inherited else Undefined_property)"

text \<open>
  \<open>String.prototype.trim\<close> on UTF-8 bytes. One-byte white space and line terminators are
  U+0009 to U+000D and U+0020; the others are U+00A0 (two bytes) and U+1680, U+2000 to U+200A,
  U+2028, U+2029, U+202F, U+205F, U+3000 and U+FEFF (three bytes).
\<close>

definition white_space1 :: "char \<Rightarrow> bool" where
  "white_space1 a = (a \<in> set [CHR 0x09, CHR 0x0A, CHR 0x0B, CHR 0x0C, CHR 0x0D, CHR 0x20])"

definition white_space2 :: "char \<Rightarrow> char \<Rightarrow> bool" where
  "white_space2 a b = (a = CHR 0xC2 \<and> b = CHR 0xA0)"

definition white_space3 :: "char \<Rightarrow> char \<Rightarrow> char \<Rightarrow> bool" where
  "white_space3 a b c =
     ((a = CHR 0xE1 \<and> b = CHR 0x9A \<and> c = CHR 0x80) \<or>
      (a = CHR 0xE2 \<and> b = CHR 0x80 \<and>
       c \<in> set [CHR 0x80, CHR 0x81, CHR 0x82, CHR 0x83, CHR 0x84, CHR 0x85, CHR 0x86, CHR 0x87,
                 CHR 0x88, CHR 0x89, CHR 0x8A, CHR 0xA8, CHR 0xA9, CHR 0xAF]) \<or>
      (a = CHR 0xE2 \<and> b = CHR 0x81 \<and> c = CHR 0x9F) \<or>
      (a = CHR 0xE3 \<and> b = CHR 0x80 \<and> c = CHR 0x80) \<or>
      (a = CHR 0xEF \<and> b = CHR 0xBB \<and> c = CHR 0xBF))"

fun trimStart :: "string \<Rightarrow> string" where
  "trimStart (a # b # c # rest) =
     (if white_space3 a b c then trimStart rest
      else if white_space2 a b then trimStart (c # rest)
      else if white_space1 a then trimStart (b # c # rest)
      else a # b # c # rest)"
| "trimStart [a, b] =
     (if white_space2 a b then [] else if white_space1 a then trimStart [b] else [a, b])"
| "trimStart [a] = (if white_space1 a then [] else [a])"
| "trimStart [] = []"

text \<open>\<open>trimEnd\<close>, on the reversed string: the last byte comes first.\<close>

fun trimEnd_reversed :: "string \<Rightarrow> string" where
  "trimEnd_reversed (c # b # a # rest) =
     (if white_space3 a b c then trimEnd_reversed rest
      else if white_space2 b c then trimEnd_reversed (a # rest)
      else if white_space1 c then trimEnd_reversed (b # a # rest)
      else c # b # a # rest)"
| "trimEnd_reversed [c, b] =
     (if white_space2 b c then [] else if white_space1 c then trimEnd_reversed [b] else [c, b])"
| "trimEnd_reversed [c] = (if white_space1 c then [] else [c])"
| "trimEnd_reversed [] = []"

definition trim :: "string \<Rightarrow> string" where
  "trim s = rev (trimEnd_reversed (rev (trimStart s)))"

text \<open>\<open>Number.prototype.toString(radix)\<close> on integers, for the template strings.\<close>

definition digit_of :: "nat \<Rightarrow> char" where
  "digit_of d = ''0123456789abcdefghijklmnopqrstuvwxyz'' ! d"

function nat_toString :: "nat \<Rightarrow> nat \<Rightarrow> string" where
  "nat_toString radix n =
     (if radix < 2 \<or> n < radix then [digit_of n]
      else nat_toString radix (n div radix) @ [digit_of (n mod radix)])"
  by pat_completeness auto
termination
  by (relation "measure (\<lambda>(radix, n). n)") auto

declare nat_toString.simps [simp del]

definition int_toString :: "nat \<Rightarrow> int \<Rightarrow> string" where
  "int_toString radix i =
     (if i < 0 then CHR ''-'' # nat_toString radix (nat (- i)) else nat_toString radix (nat i))"

definition status_toString :: "TaskStatus \<Rightarrow> string" where
  "status_toString s =
     (case s of Pending \<Rightarrow> ''pending'' | In_progress \<Rightarrow> ''in_progress''
      | Completed \<Rightarrow> ''completed'' | Blocked \<Rightarrow> ''blocked'' | Failed \<Rightarrow> ''failed'')"

subsection \<open>WorkflowStore (core/workflow-store.ts)\<close>

datatype error = NotInitialized | RangeError | TypeError

text \<open>
  \<open>new Date(t).toISOString()\<close>: a time beyond 8640000000000000 ms on either side of
  the epoch is an invalid date, for which \<open>toISOString\<close> throws.
\<close>

definition toISOString :: "int \<Rightarrow> error + int" where
  "toISOString t = (if \<bar>t\<bar> \<le> 8640000000000000 then Inr t else Inl RangeError)"

text \<open>
  The project root and the files under \<open>.easyagents\<close>: \<open>workflow.yaml\<close> (absent before
  \<open>ea init\<close>), \<open>.agent_id\<close> and the \<open>outputs\<close> directory (path to content).
\<close>

record store =
  projectRoot :: string
  workflow_file :: "Workflow option"
  agent_id_file :: "string option"
  outputs :: "string \<rightharpoonup> string"

definition load :: "store \<Rightarrow> error + Workflow" where
  "load st = (case workflow_file st of None \<Rightarrow> Inl NotInitialized | Some w \<Rightarrow> Inr w)"

definition save :: "store \<Rightarrow> Workflow \<Rightarrow> int \<Rightarrow> store" where
  "save st w now = st\<lparr>workflow_file := Some (w\<lparr>updated_at := now\<rparr>)\<rparr>"

definition getLocalAgentId :: "store \<Rightarrow> string option" where
  "getLocalAgentId st = map_option trim (agent_id_file st)"

definition saveLocalAgentId :: "store \<Rightarrow> string \<Rightarrow> store" where
  "saveLocalAgentId st agentId = st\<lparr>agent_id_file := Some agentId\<rparr>"

definition clearLocalAgentId :: "store \<Rightarrow> store" where
  "clearLocalAgentId st = st\<lparr>agent_id_file := None\<rparr>"

text \<open>
  \<open>path.join(easyagentsDir, 'outputs', taskId + '.md')\<close>, for a POSIX root and an identifier
  without path separators.
\<close>

definition outputPath :: "store \<Rightarrow> string \<Rightarrow> string" where
  "outputPath st taskId = projectRoot st @ ''/.easyagents/outputs/'' @ taskId @ ''.md''"

definition writeOutput :: "store \<Rightarrow> string \<Rightarrow> string \<Rightarrow> string \<times> store" where
  "writeOutput st taskId content =
     (outputPath st taskId, st\<lparr>outputs := (outputs st)(outputPath st taskId \<mapsto> content)\<rparr>)"

text \<open>\<open>filePath.replace(/\\/g, '/')\<close>: every backslash becomes a slash.\<close>

definition normalizePath :: "string \<Rightarrow> string" where
  "normalizePath filePath = map (\<lambda>c. if c = CHR 0x5C then CHR ''/'' else c) filePath"

subsection \<open>TaskManager (core/task-manager.ts)\<close>

record addTask_options =
  opt_name :: string
  opt_description :: string
  opt_priority :: "int option"
  opt_dependencies :: "string list option"
  opt_files :: "TaskFile list option"
  opt_async_execution :: "bool option"
  opt_task_type :: "TaskType option"

text \<open>The loop of \<open>addTask\<close> that records the new task as a dependent of its dependencies.\<close>

fun add_dependents :: "string \<Rightarrow> string list \<Rightarrow> (string \<rightharpoonup> Task) \<Rightarrow> (string \<rightharpoonup> Task)" where
  "add_dependents taskId [] ts = ts"
| "add_dependents taskId (depId # rest) ts =
     (case ts depId of
        None \<Rightarrow> add_dependents taskId rest ts
      | Some depTask \<Rightarrow>
          if taskId \<in> set (task_dependents depTask) then add_dependents taskId rest ts
          else add_dependents taskId rest
                 (ts(depId \<mapsto> depTask\<lparr>task_dependents := task_dependents depTask @ [taskId]\<rparr>)))"

definition addTask :: "store \<Rightarrow> addTask_options \<Rightarrow> string \<Rightarrow> int \<Rightarrow> error + Task \<times> store" where
  "addTask st options taskId now =
     (case load st of
        Inl e \<Rightarrow> Inl e
      | Inr workflow \<Rightarrow>
          let task = \<lparr>task_id = taskId,
                      task_name = opt_name options,
                      task_description = opt_description options,
                      task_status = Pending,
                      task_priority = (case opt_priority options of
                                         None \<Rightarrow> 3 | Some p \<Rightarrow> if p = 0 then 3 else p),
                      task_assigned_agent = None,
                      task_dependencies = (case opt_dependencies options of
                                             None \<Rightarrow> [] | Some ds \<Rightarrow> ds),
                      task_dependents = [],
                      task_context_from = None,
                      task_files = (case opt_files options of None \<Rightarrow> [] | Some fs \<Rightarrow> fs),
                      task_result = None,
                      task_async_execution = (case opt_async_execution options of
                                                None \<Rightarrow> Some False | Some b \<Rightarrow> Some b),
                      task_task_type = (case opt_task_type options of
                                          None \<Rightarrow> Some Task_t | Some ty \<Rightarrow> Some ty),
                      task_condition = None,
                      task_created_at = now,
                      task_updated_at = now\<rparr>;
              ts = add_dependents taskId (task_dependencies task) (tasks workflow)
          in Inr (task, save st (workflow\<lparr>tasks := ts(taskId \<mapsto> task)\<rparr>) now))"

text \<open>
  \<open>isTaskAvailable(task, workflow)\<close>. Every caller in the source passes the loaded document;
  the loop over the dependencies returns at the first unmet one.
\<close>

fun dependencies_completed :: "Workflow \<Rightarrow> string list \<Rightarrow> bool" where
  "dependencies_completed w [] = True"
| "dependencies_completed w (depId # rest) =
     (case tasks w depId of
        None \<Rightarrow> False
      | Some depTask \<Rightarrow>
          if task_status depTask \<noteq> Completed then False else dependencies_completed w rest)"

definition isTaskAvailable :: "Task \<Rightarrow> Workflow \<Rightarrow> bool" where
  "isTaskAvailable task w =
     (if task_status task \<noteq> Pending then False
      else if truthy (task_assigned_agent task) then False
      else dependencies_completed w (task_dependencies task))"

text \<open>
  \<open>claimTask\<close>. For an inherited member as \<open>task\<close>, \<open>task.status\<close> is \<open>undefined\<close>: the task
  is not available and the answer is the one for a status that is not pending. For an
  inherited member as \<open>agent\<close>, \<open>agent.claimed_tasks\<close> is \<open>undefined\<close> and \<open>.includes\<close> throws,
  before the document is saved.
\<close>

definition claimTask :: "store \<Rightarrow> string \<Rightarrow> string \<Rightarrow> int \<Rightarrow> error + TaskClaimResult \<times> store" where
  "claimTask st taskId agentId now =
     (case load st of
        Inl e \<Rightarrow> Inl e
      | Inr workflow \<Rightarrow>
         (case get_property (tasks workflow) taskId of
            Undefined_property \<Rightarrow>
              Inr (\<lparr>claim_success = False,
                    claim_message = ''Task '' @ taskId @ '' not found'',
                    claim_task = None, claim_agent_id = None\<rparr>, st)
          | Inherited \<Rightarrow>
              Inr (\<lparr>claim_success = False,
                    claim_message = ''Task is already undefined'',
                    claim_task = None, claim_agent_id = None\<rparr>, st)
          | Own task \<Rightarrow>
              if \<not> isTaskAvailable task workflow then
                (if task_status task \<noteq> Pending then
                   Inr (\<lparr>claim_success = False,
                         claim_message = ''Task is already '' @ status_toString (task_status task),
                         claim_task = None, claim_agent_id = None\<rparr>, st)
                 else if truthy (task_assigned_agent task) then
                   Inr (\<lparr>claim_success = False,
                         claim_message = ''Task is already assigned to '' @
                           (case task_assigned_agent task of None \<Rightarrow> [] | Some a \<Rightarrow> a),
                         claim_task = None, claim_agent_id = None\<rparr>, st)
                 else Inr (\<lparr>claim_success = False,
                            claim_message = ''Task dependencies not completed'',
                            claim_task = None, claim_agent_id = None\<rparr>, st))
              else
                let task' = task\<lparr>task_status := In_progress,
                                 task_assigned_agent := Some agentId,
                                 task_updated_at := now\<rparr>
                in (case get_property (agents workflow) agentId of
                      Inherited \<Rightarrow> Inl TypeError
                    | Undefined_property \<Rightarrow>
                        Inr (\<lparr>claim_success = True,
                              claim_message = ''Task '' @ taskId @ '' claimed successfully'',
                              claim_task = Some task',
                              claim_agent_id = Some agentId\<rparr>,
                             save st (workflow\<lparr>tasks := (tasks workflow)(taskId \<mapsto> task')\<rparr>) now)
                    | Own agent \<Rightarrow>
                        Inr (\<lparr>claim_success = True,
                              claim_message = ''Task '' @ taskId @ '' claimed successfully'',
                              claim_task = Some task',
                              claim_agent_id = Some agentId\<rparr>,
                             save st
                               (workflow\<lparr>tasks := (tasks workflow)(taskId \<mapsto> task'),
                                         agents := (agents workflow)(agentId \<mapsto>
                                           agent\<lparr>claimed_tasks :=
                                                    (if taskId \<in> set (claimed_tasks agent)
                                                     then claimed_tasks agent
                                                     else claimed_tasks agent @ [taskId]),
                                                  last_active := now\<rparr>)\<rparr>) now))))"

text \<open>The loop of \<open>completeTask\<close> that collects the dependents that are available now.\<close>

fun collect_unblocked :: "Workflow \<Rightarrow> string list \<Rightarrow> string list \<Rightarrow> string list" where
  "collect_unblocked w [] unblockedTasks = unblockedTasks"
| "collect_unblocked w (dependentId # rest) unblockedTasks =
     (case tasks w dependentId of
        None \<Rightarrow> collect_unblocked w rest unblockedTasks
      | Some dependent \<Rightarrow>
          if isTaskAvailable dependent w
          then collect_unblocked w rest (unblockedTasks @ [dependentId])
          else collect_unblocked w rest unblockedTasks)"

definition complete_failure :: "string \<Rightarrow> TaskCompleteResult" where
  "complete_failure msg =
     \<lparr>complete_success = False, complete_message = msg, unblocked_tasks = None\<rparr>"

text \<open>The document of \<open>completeTask\<close> after its mutations, before the dependents are examined.\<close>

definition completed_workflow ::
  "Workflow \<Rightarrow> string \<Rightarrow> Task \<Rightarrow> string \<Rightarrow> string option \<Rightarrow> int \<Rightarrow> Workflow" where
  "completed_workflow workflow taskId task summ outputRef now =
     (let task' = task\<lparr>task_status := Completed,
                       task_result := Some \<lparr>completed_at = now, summary = summ,
                                            output_ref = outputRef\<rparr>,
                       task_updated_at := now\<rparr>;
          agents' = (if truthy (task_assigned_agent task) then
                       (case task_assigned_agent task of
                          None \<Rightarrow> agents workflow
                        | Some a \<Rightarrow>
                           (case agents workflow a of
                              None \<Rightarrow> agents workflow
                            | Some agent \<Rightarrow>
                                (agents workflow)(a \<mapsto>
                                   agent\<lparr>claimed_tasks :=
                                            filter (\<lambda>i. i \<noteq> taskId) (claimed_tasks agent),
                                          last_active := now\<rparr>)))
                     else agents workflow)
      in workflow\<lparr>tasks := (tasks workflow)(taskId \<mapsto> task'), agents := agents'\<rparr>)"

definition completeTask ::
  "store \<Rightarrow> string \<Rightarrow> string \<Rightarrow> string option \<Rightarrow> int \<Rightarrow> error + TaskCompleteResult \<times> store" where
  "completeTask st taskId summ output now =
     (case load st of
        Inl e \<Rightarrow> Inl e
      | Inr workflow \<Rightarrow>
         (case tasks workflow taskId of
            None \<Rightarrow> Inr (complete_failure (''Task '' @ taskId @ '' not found''), st)
          | Some task \<Rightarrow>
              if task_status task = Completed then
                Inr (complete_failure ''Task is already completed'', st)
              else
                let (outputRef, st1) =
                      (if truthy output then
                         (case output of
                            None \<Rightarrow> (None, st)
                          | Some content \<Rightarrow>
                              (Some (fst (writeOutput st taskId content)),
                               snd (writeOutput st taskId content)))
                       else (None, st));
                    workflow' = completed_workflow workflow taskId task summ outputRef now;
                    unblockedTasks = collect_unblocked workflow' (task_dependents task) []
                in Inr (\<lparr>complete_success = True,
                         complete_message = ''Task '' @ taskId @ '' completed'',
                         unblocked_tasks = Some unblockedTasks\<rparr>,
                        save st1 workflow' now)))"

definition updateTaskStatus :: "store \<Rightarrow> string \<Rightarrow> TaskStatus \<Rightarrow> int \<Rightarrow> error + bool \<times> store" where
  "updateTaskStatus st taskId status now =
     (case load st of
        Inl e \<Rightarrow> Inl e
      | Inr workflow \<Rightarrow>
         (case tasks workflow taskId of
            None \<Rightarrow> Inr (False, st)
          | Some task \<Rightarrow>
              Inr (True,
                   save st (workflow\<lparr>tasks := (tasks workflow)(taskId \<mapsto>
                              task\<lparr>task_status := status, task_updated_at := now\<rparr>)\<rparr>) now)))"

text \<open>The two repair passes of \<open>deleteTask\<close>.\<close>

fun strip_dependent :: "string \<Rightarrow> string list \<Rightarrow> (string \<rightharpoonup> Task) \<Rightarrow> (string \<rightharpoonup> Task)" where
  "strip_dependent taskId [] ts = ts"
| "strip_dependent taskId (depId # rest) ts =
     (case ts depId of
        None \<Rightarrow> strip_dependent taskId rest ts
      | Some depTask \<Rightarrow>
          strip_dependent taskId rest
            (ts(depId \<mapsto> depTask\<lparr>task_dependents :=
                                     filter (\<lambda>i. i \<noteq> taskId) (task_dependents depTask)\<rparr>)))"

fun strip_dependency :: "string \<Rightarrow> string list \<Rightarrow> (string \<rightharpoonup> Task) \<Rightarrow> (string \<rightharpoonup> Task)" where
  "strip_dependency taskId [] ts = ts"
| "strip_dependency taskId (dependentId # rest) ts =
     (case ts dependentId of
        None \<Rightarrow> strip_dependency taskId rest ts
      | Some dependent \<Rightarrow>
          strip_dependency taskId rest
            (ts(dependentId \<mapsto> dependent\<lparr>task_dependencies :=
                                     filter (\<lambda>i. i \<noteq> taskId) (task_dependencies dependent)\<rparr>)))"

definition deleteTask :: "store \<Rightarrow> string \<Rightarrow> int \<Rightarrow> error + bool \<times> store" where
  "deleteTask st taskId now =
     (case load st of
        Inl e \<Rightarrow> Inl e
      | Inr workflow \<Rightarrow>
         (case tasks workflow taskId of
            None \<Rightarrow> Inr (False, st)
          | Some task \<Rightarrow>
              let ts1 = strip_dependent taskId (task_dependencies task) (tasks workflow);
                  ts2 = strip_dependency taskId
                          (case ts1 taskId of None \<Rightarrow> [] | Some t1 \<Rightarrow> task_dependents t1) ts1;
                  agents' = (if truthy (task_assigned_agent task) then
                               (case task_assigned_agent task of
                                  None \<Rightarrow> agents workflow
                                | Some a \<Rightarrow>
                                   (case agents workflow a of
                                      None \<Rightarrow> agents workflow
                                    | Some agent \<Rightarrow>
                                        (agents workflow)(a \<mapsto>
                                           agent\<lparr>claimed_tasks :=
                                                    filter (\<lambda>i. i \<noteq> taskId) (claimed_tasks agent)\<rparr>)))
                             else agents workflow)
              in Inr (True,
                      save st (workflow\<lparr>tasks := ts2(taskId := None), agents := agents'\<rparr>) now)))"

subsection \<open>LockManager (core/lock-manager.ts)\<close>

record acquire_options =
  acq_methods :: "string list option"
  acq_reason :: string
  acq_timeout :: "int option"
  acq_task_id :: "string option"

record release_modification =
  rm_method :: "string option"
  rm_lines_changed :: string
  rm_reason :: string
  rm_task_id :: string

record LockStatus =
  locked :: bool
  status_lock :: "FileLock option"
  expired :: "bool option"

definition isLockExpired :: "FileLock \<Rightarrow> int \<Rightarrow> bool" where
  "isLockExpired lock now = (expires_at lock \<le> now)"

definition methodsConflict :: "string list \<Rightarrow> string list \<Rightarrow> bool" where
  "methodsConflict requestedMethods lockedMethods =
     (if ''*'' \<in> set lockedMethods \<or> ''*'' \<in> set requestedMethods then True
      else list_ex (\<lambda>m. m \<in> set lockedMethods) requestedMethods)"

text \<open>\<open>[...new Set(xs)]\<close>: the elements of \<open>xs\<close> in order of first occurrence.\<close>

fun set_spread :: "string list \<Rightarrow> string list \<Rightarrow> string list" where
  "set_spread seen [] = []"
| "set_spread seen (x # xs) =
     (if x \<in> set seen then set_spread seen xs else x # set_spread (seen @ [x]) xs)"

text \<open>
  \<open>createLock\<close>. The expiry is \<open>new Date(now.getTime() + timeout).toISOString()\<close>, evaluated
  while the lock object is built, before the lock is stored and the document saved.
\<close>

definition createLock ::
  "store \<Rightarrow> Workflow \<Rightarrow> string \<Rightarrow> string \<Rightarrow> string list \<Rightarrow> string \<Rightarrow> int \<Rightarrow> string option \<Rightarrow> int
     \<Rightarrow> error + LockAcquireResult \<times> store" where
  "createLock st workflow filePath agentId methods reason timeout taskId now =
     (case toISOString (now + timeout) of
        Inl e \<Rightarrow> Inl e
      | Inr expires \<Rightarrow>
          let lock = \<lparr>locked_by = agentId, locked_at = now, expires_at = expires,
                      lock_methods = methods, lock_reason = reason, lock_task_id = taskId\<rparr>
          in Inr (\<lparr>acq_success = True, acq_message = ''Lock acquired successfully'',
                   acq_lock = Some lock, waitInfo = None\<rparr>,
                  save st (workflow\<lparr>locks := (locks workflow)(filePath \<mapsto> lock)\<rparr>) now))"

text \<open>
  \<open>acquireLock\<close>. For an inherited member as \<open>existingLock\<close>, \<open>expires_at\<close>, \<open>locked_by\<close> and
  \<open>methods\<close> are \<open>undefined\<close>: the lock is not expired (an invalid date compares false), is
  not the agent's, and \<open>lockedMethods.includes\<close> throws in \<open>methodsConflict\<close>. In the
  extension the new expiry is computed first, so an invalid one throws before anything is
  changed.
\<close>

definition acquireLock ::
  "store \<Rightarrow> string \<Rightarrow> string \<Rightarrow> acquire_options \<Rightarrow> int \<Rightarrow> error + LockAcquireResult \<times> store" where
  "acquireLock st filePath agentId options now =
     (case load st of
        Inl e \<Rightarrow> Inl e
      | Inr workflow \<Rightarrow>
          let normalizedPath = normalizePath filePath;
              requestedMethods = (case acq_methods options of None \<Rightarrow> [''*''] | Some ms \<Rightarrow> ms);
              timeout = (case acq_timeout options of
                           None \<Rightarrow> lock_timeout (config workflow)
                         | Some t \<Rightarrow> if t = 0 then lock_timeout (config workflow) else t)
          in (case get_property (locks workflow) normalizedPath of
                Undefined_property \<Rightarrow>
                  createLock st workflow normalizedPath agentId requestedMethods
                    (acq_reason options) timeout (acq_task_id options) now
              | Inherited \<Rightarrow> Inl TypeError
              | Own existingLock \<Rightarrow>
                  if isLockExpired existingLock now then
                    createLock st
                      (workflow\<lparr>locks := (locks workflow)(normalizedPath := None)\<rparr>)
                      normalizedPath agentId requestedMethods
                      (acq_reason options) timeout (acq_task_id options) now
                  else if locked_by existingLock = agentId then
                    (case toISOString (now + timeout) of
                       Inl e \<Rightarrow> Inl e
                     | Inr expires \<Rightarrow>
                         let extended = existingLock
                               \<lparr>expires_at := expires,
                                lock_methods := set_spread []
                                                  (lock_methods existingLock @ requestedMethods)\<rparr>
                         in Inr (\<lparr>acq_success = True, acq_message = ''Lock extended'',
                                  acq_lock = Some extended, waitInfo = None\<rparr>,
                                 save st (workflow\<lparr>locks :=
                                            (locks workflow)(normalizedPath \<mapsto> extended)\<rparr>) now))
                  else if \<not> methodsConflict requestedMethods (lock_methods existingLock) then
                    createLock st workflow normalizedPath agentId requestedMethods
                      (acq_reason options) timeout (acq_task_id options) now
                  else
                    Inr (\<lparr>acq_success = False,
                          acq_message = ''File locked by '' @ locked_by existingLock,
                          acq_lock = None,
                          waitInfo = Some \<lparr>wait_locked_by = locked_by existingLock,
                                           wait_reason = lock_reason existingLock,
                                           expires_in_ms = expires_at existingLock - now,
                                           wait_methods = lock_methods existingLock\<rparr>\<rparr>,
                         st)))"

definition checkRefactorSuggestion ::
  "Workflow \<Rightarrow> string \<Rightarrow> string option \<Rightarrow> int \<Rightarrow> Workflow" where
  "checkRefactorSuggestion workflow filePath method now =
     (let threshold = auto_refactor_threshold (config workflow);
          oneDayAgo = now - 24 * 60 * 60 * 1000;
          recentMods = filter (\<lambda>m. mod_file m = filePath \<and>
                                     (\<not> truthy method \<or> mod_method m = method) \<and>
                                     modified_at m > oneDayAgo)
                         (modifications workflow)
      in if int (length recentMods) \<ge> threshold then
           (case find (\<lambda>s. sug_file s = filePath \<and> (\<not> truthy method \<or> sug_method s = method))
                   (refactor_suggestions workflow) of
              Some existingSuggestion \<Rightarrow> workflow
            | None \<Rightarrow>
                workflow\<lparr>refactor_suggestions := refactor_suggestions workflow @
                  [\<lparr>sug_id = ''refactor_'' @ int_toString 36 now,
                    sug_file = filePath,
                    sug_method = method,
                    sug_reason =
                      (if truthy method then
                         ''Method '' @ [CHR 0x22] @ (case method of None \<Rightarrow> [] | Some m \<Rightarrow> m) @
                         [CHR 0x22] @ '' has been modified '' @
                         nat_toString 10 (length recentMods) @ '' times in the last 24 hours''
                       else ''File has been modified '' @
                         nat_toString 10 (length recentMods) @ '' times in the last 24 hours''),
                    suggested_by = ''system'',
                    sug_created_at = now,
                    sug_priority = (if int (length recentMods) \<ge> threshold * 2
                                    then High else Medium)\<rparr>]\<rparr>)
         else workflow)"

definition releaseLock ::
  "store \<Rightarrow> string \<Rightarrow> string \<Rightarrow> release_modification option \<Rightarrow> int
     \<Rightarrow> error + LockReleaseResult \<times> store" where
  "releaseLock st filePath agentId modification now =
     (case load st of
        Inl e \<Rightarrow> Inl e
      | Inr workflow \<Rightarrow>
          let normalizedPath = normalizePath filePath
          in (case locks workflow normalizedPath of
                None \<Rightarrow>
                  Inr (\<lparr>rel_success = False, rel_message = ''No lock found for this file''\<rparr>, st)
              | Some lock \<Rightarrow>
                  if locked_by lock \<noteq> agentId then
                    Inr (\<lparr>rel_success = False,
                          rel_message = ''Lock owned by '' @ locked_by lock @ '', not '' @ agentId\<rparr>,
                         st)
                  else
                    let workflow1 =
                          (case modification of
                             None \<Rightarrow> workflow
                           | Some m \<Rightarrow>
                               checkRefactorSuggestion
                                 (workflow\<lparr>modifications := modifications workflow @
                                    [\<lparr>mod_file = normalizedPath,
                                      mod_method = rm_method m,
                                      modified_by = agentId,
                                      modified_at = now,
                                      lines_changed = rm_lines_changed m,
                                      mod_reason = rm_reason m,
                                      mod_task_id = rm_task_id m\<rparr>]\<rparr>)
                                 normalizedPath (rm_method m) now)
                    in Inr (\<lparr>rel_success = True, rel_message = ''Lock released successfully''\<rparr>,
                            save st (workflow1\<lparr>locks :=
                                       (locks workflow1)(normalizedPath := None)\<rparr>) now)))"

definition getLockStatus :: "store \<Rightarrow> string \<Rightarrow> int \<Rightarrow> error + LockStatus \<times> store" where
  "getLockStatus st filePath now =
     (case load st of
        Inl e \<Rightarrow> Inl e
      | Inr workflow \<Rightarrow>
          let normalizedPath = normalizePath filePath
          in (case locks workflow normalizedPath of
                None \<Rightarrow> Inr (\<lparr>locked = False, status_lock = None, expired = None\<rparr>, st)
              | Some lock \<Rightarrow>
                  if isLockExpired lock now then
                    Inr (\<lparr>locked = False, status_lock = None, expired = Some True\<rparr>,
                         save st (workflow\<lparr>locks := (locks workflow)(normalizedPath := None)\<rparr>) now)
                  else Inr (\<lparr>locked = True, status_lock = Some lock, expired = None\<rparr>, st)))"



definition forceReleaseLock :: "store \<Rightarrow> string \<Rightarrow> int \<Rightarrow> error + bool \<times> store" where
  "forceReleaseLock st filePath now =
     (case load st of
        Inl e \<Rightarrow> Inl e
      | Inr workflow \<Rightarrow>
          let normalizedPath = normalizePath filePath
          in (case locks workflow normalizedPath of
                Some lock \<Rightarrow>
                  Inr (True,
                       save st (workflow\<lparr>locks := (locks workflow)(normalizedPath := None)\<rparr>) now)
              | None \<Rightarrow> Inr (False, st)))"

text \<open>
  \<open>cleanupExpiredLocks\<close> walks the entries of the locks object; the number it returns is the
  number of expired leases (the object is finite).
\<close>

definition cleanupExpiredLocks :: "store \<Rightarrow> int \<Rightarrow> error + nat \<times> store" where
  "cleanupExpiredLocks st now =
     (case load st of
        Inl e \<Rightarrow> Inl e
      | Inr workflow \<Rightarrow>
          let expiredPaths = {path. \<exists>lock. locks workflow path = Some lock \<and> isLockExpired lock now};
              cleaned = card expiredPaths
          in Inr (cleaned,
                  if cleaned > 0 then
                    save st (workflow\<lparr>locks := (\<lambda>path. if path \<in> expiredPaths then None
                                                        else locks workflow path)\<rparr>) now
                  else st))"

definition dismissRefactorSuggestion :: "store \<Rightarrow> string \<Rightarrow> int \<Rightarrow> error + bool \<times> store" where
  "dismissRefactorSuggestion st suggestionId now =
     (case load st of
        Inl e \<Rightarrow> Inl e
      | Inr workflow \<Rightarrow>
         (case find (\<lambda>s. sug_id s = suggestionId) (refactor_suggestions workflow) of
            None \<Rightarrow> Inr (False, st)
          | Some s \<Rightarrow>
              Inr (True,
                   save st (workflow\<lparr>refactor_suggestions :=
                              remove1 s (refactor_suggestions workflow)\<rparr>) now)))"

subsection \<open>AgentManager (core/agent-manager.ts)\<close>

definition getOrCreateCurrentAgent ::
  "store \<Rightarrow> string option \<Rightarrow> string \<Rightarrow> string \<Rightarrow> int \<Rightarrow> error + Agent \<times> store" where
  "getOrCreateCurrentAgent st name newAgentId newSessionId now =
     (let agentId = getLocalAgentId st
      in case load st of
           Inl e \<Rightarrow> Inl e
         | Inr workflow \<Rightarrow>
            (case (if truthy agentId
                   then (case agentId of None \<Rightarrow> None
                         | Some a \<Rightarrow> map_option (\<lambda>agent. (a, agent)) (agents workflow a))
                   else None) of
               Some (a, agent) \<Rightarrow>
                 let agent' = agent\<lparr>last_active := now, agent_status := Active\<rparr>
                 in Inr (agent', save st (workflow\<lparr>agents := (agents workflow)(a \<mapsto> agent')\<rparr>) now)
             | None \<Rightarrow>
                 let agent = \<lparr>agent_id = newAgentId,
                              agent_name =
                                (if truthy name then (case name of None \<Rightarrow> [] | Some n \<Rightarrow> n)
                                 else ''Agent '' @
                                      nat_toString 10 (card (dom (agents workflow)) + 1)),
                              claimed_tasks = [],
                              session_id = Some newSessionId,
                              agent_status = Active,
                              last_active = now,
                              agent_created_at = now\<rparr>
                 in Inr (agent,
                         saveLocalAgentId
                           (save st (workflow\<lparr>agents := (agents workflow)(newAgentId \<mapsto> agent)\<rparr>) now)
                           newAgentId)))"

text \<open>
  \<open>listAgents\<close> first demotes every active agent that has been silent for longer than the
  inactivity window and saves the document. This is the document it saves; the sorted
  listing it returns follows the key order of the stored object, which a map does not keep,
  and is not part of the model.
\<close>

definition listAgents_saved :: "store \<Rightarrow> int \<Rightarrow> error + store" where
  "listAgents_saved st now =
     (case load st of
        Inl e \<Rightarrow> Inl e
      | Inr workflow \<Rightarrow>
          Inr (save st (workflow\<lparr>agents := (\<lambda>k. map_option
                          (\<lambda>agent. if agent_status agent = Active \<and>
                                       now - last_active agent > inactive_timeout (config workflow)
                                    then agent\<lparr>agent_status := Inactive\<rparr> else agent)
                          (agents workflow k))\<rparr>) now))"

definition renameAgent :: "store \<Rightarrow> string \<Rightarrow> int \<Rightarrow> error + bool \<times> store" where
  "renameAgent st newName now =
     (if \<not> truthy (getLocalAgentId st) then Inr (False, st)
      else case load st of
             Inl e \<Rightarrow> Inl e
           | Inr workflow \<Rightarrow>
              (case getLocalAgentId st of
                 None \<Rightarrow> Inr (False, st)
               | Some agentId \<Rightarrow>
                  (case agents workflow agentId of
                     None \<Rightarrow> Inr (False, st)
                   | Some agent \<Rightarrow>
                       Inr (True,
                            save st (workflow\<lparr>agents := (agents workflow)(agentId \<mapsto>
                                       agent\<lparr>agent_name := newName, last_active := now\<rparr>)\<rparr>) now))))"

definition touchAgent :: "store \<Rightarrow> int \<Rightarrow> error + store" where
  "touchAgent st now =
     (if \<not> truthy (getLocalAgentId st) then Inr st
      else case load st of
             Inl e \<Rightarrow> Inl e
           | Inr workflow \<Rightarrow>
              (case getLocalAgentId st of
                 None \<Rightarrow> Inr st
               | Some agentId \<Rightarrow>
                  (case agents workflow agentId of
                     None \<Rightarrow> Inr st
                   | Some agent \<Rightarrow>
                       Inr (save st (workflow\<lparr>agents := (agents workflow)(agentId \<mapsto>
                                       agent\<lparr>last_active := now, agent_status := Active\<rparr>)\<rparr>) now))))"

definition deactivateAgent :: "store \<Rightarrow> int \<Rightarrow> error + bool \<times> store" where
  "deactivateAgent st now =
     (if \<not> truthy (getLocalAgentId st) then Inr (False, st)
      else case load st of
             Inl e \<Rightarrow> Inl e
           | Inr workflow \<Rightarrow>
              (case getLocalAgentId st of
                 None \<Rightarrow> Inr (False, st)
               | Some agentId \<Rightarrow>
                  (case agents workflow agentId of
                     None \<Rightarrow> Inr (False, st)
                   | Some agent \<Rightarrow>
                       Inr (True,
                            clearLocalAgentId
                              (save st (workflow\<lparr>agents := (agents workflow)(agentId \<mapsto>
                                          agent\<lparr>agent_status := Inactive\<rparr>)\<rparr>) now)))))"

text \<open>
  \<open>cleanupTerminatedAgents(olderThanDays = 7)\<close> walks the entries of the agents object; the
  number it returns is the number of agents it deletes (the object is finite).
\<close>

definition cleanupTerminatedAgents :: "store \<Rightarrow> int option \<Rightarrow> int \<Rightarrow> error + nat \<times> store" where
  "cleanupTerminatedAgents st olderThanDays now =
     (case load st of
        Inl e \<Rightarrow> Inl e
      | Inr workflow \<Rightarrow>
          let cutoff = now - (case olderThanDays of None \<Rightarrow> 7 | Some d \<Rightarrow> d) * 24 * 60 * 60 * 1000;
              old = {agentId. \<exists>agent. agents workflow agentId = Some agent \<and>
                                    agent_status agent = Terminated \<and> last_active agent < cutoff};
              cleaned = card old
          in Inr (cleaned,
                  if cleaned > 0 then
                    save st (workflow\<lparr>agents := (\<lambda>agentId. if agentId \<in> old then None
                                                          else agents workflow agentId)\<rparr>) now
                  else st))"

text \<open>
  The transfer loop of \<open>takeoverAgent\<close>. It updates two objects: the tasks of the document
  that \<open>takeoverAgent\<close> loaded, and \<open>currentAgent\<close>, the object that
  \<open>getOrCreateCurrentAgent\<close> returned.
\<close>

fun transfer_tasks ::
  "string list \<Rightarrow> (string \<rightharpoonup> Task) \<Rightarrow> Agent \<Rightarrow> (string \<rightharpoonup> Task) \<times> Agent" where
  "transfer_tasks [] ts currentAgent = (ts, currentAgent)"
| "transfer_tasks (taskId # rest) ts currentAgent =
     transfer_tasks rest
       (case ts taskId of
          None \<Rightarrow> ts
        | Some task \<Rightarrow> ts(taskId \<mapsto> task\<lparr>task_assigned_agent := Some (agent_id currentAgent)\<rparr>))
       (if taskId \<in> set (claimed_tasks currentAgent) then currentAgent
        else currentAgent\<lparr>claimed_tasks := claimed_tasks currentAgent @ [taskId]\<rparr>)"

definition takeover_failure :: "string \<Rightarrow> AgentTakeoverResult" where
  "takeover_failure msg =
     \<lparr>takeover_success = False, takeover_message = msg, inherited_tasks = None\<rparr>"

text \<open>
  \<open>takeoverAgent\<close> loads the document (\<open>workflow\<close>), then calls \<open>getOrCreateCurrentAgent\<close>,
  which loads the file again, changes and saves its own copy and returns an agent object of
  that copy. The loop and the assignment to \<open>last_active\<close> change that object
  (\<open>currentAgent1\<close>, \<open>currentAgent2\<close> below); the document written at the end is \<open>workflow\<close>.
\<close>

definition takeoverAgent ::
  "store \<Rightarrow> string \<Rightarrow> string \<Rightarrow> string \<Rightarrow> int \<Rightarrow> error + AgentTakeoverResult \<times> store" where
  "takeoverAgent st targetAgentId newAgentId newSessionId now =
     (case load st of
        Inl e \<Rightarrow> Inl e
      | Inr workflow \<Rightarrow>
         (case agents workflow targetAgentId of
            None \<Rightarrow> Inr (takeover_failure (''Agent '' @ targetAgentId @ '' not found''), st)
          | Some targetAgent \<Rightarrow>
              if agent_status targetAgent = Terminated then
                Inr (takeover_failure ''Agent is already terminated'', st)
              else
                (case getOrCreateCurrentAgent st None newAgentId newSessionId now of
                   Inl e \<Rightarrow> Inl e
                 | Inr (currentAgent, st1) \<Rightarrow>
                     if agent_id currentAgent = targetAgentId then
                       Inr (takeover_failure ''Cannot takeover yourself'', st1)
                     else
                       let inheritedTasks = claimed_tasks targetAgent;
                           (ts, currentAgent1) =
                              transfer_tasks inheritedTasks (tasks workflow) currentAgent;
                           targetAgent' = targetAgent\<lparr>agent_status := Terminated,
                                                       claimed_tasks := []\<rparr>;
                           locks' = (\<lambda>path. map_option
                                       (\<lambda>lock. if locked_by lock = targetAgentId
                                                then lock\<lparr>locked_by := agent_id currentAgent\<rparr>
                                                else lock)
                                       (locks workflow path));
                           currentAgent2 = currentAgent1\<lparr>last_active := now\<rparr>;
                           workflow' = workflow\<lparr>tasks := ts,
                                                agents := (agents workflow)
                                                            (targetAgentId \<mapsto> targetAgent'),
                                                locks := locks'\<rparr>
                       in Inr (\<lparr>takeover_success = True,
                                takeover_message = ''Took over '' @
                                  nat_toString 10 (length inheritedTasks) @
                                  '' tasks from '' @ agent_name targetAgent,
                                inherited_tasks = Some inheritedTasks\<rparr>,
                               save st1 workflow' now))))"

subsection \<open>Serialised sequences of coordinator calls\<close>

text \<open>
  The coordinators assume that calls are serialised: each call loads the document, changes
  it and saves it before the next call starts. A history is a list of calls, each with the
  clock reading it is made at. The calls are those of the three coordinators that write to
  the store; the remaining ones only read. A call that throws leaves the store as it was,
  and the history goes on from there.
\<close>

datatype operation =
    AddTask addTask_options string
  | ClaimTask string string
  | CompleteTask string string "string option"
  | UpdateTaskStatus string TaskStatus
  | DeleteTask string
  | AcquireLock string string acquire_options
  | ReleaseLock string string "release_modification option"
  | GetLockStatus string
  | DismissRefactorSuggestion string
  | GetOrCreateCurrentAgent "string option" string string
  | TakeoverAgent string string string
  | ForceReleaseLock string
  | CleanupExpiredLocks
  | ListAgents
  | RenameAgent string
  | TouchAgent
  | DeactivateAgent
  | CleanupTerminatedAgents "int option"

fun apply_operation :: "store \<Rightarrow> operation \<Rightarrow> int \<Rightarrow> error + store" where
  "apply_operation st (AddTask options taskId) now = map_sum id snd (addTask st options taskId now)"
| "apply_operation st (ClaimTask taskId agentId) now = map_sum id snd (claimTask st taskId agentId now)"
| "apply_operation st (CompleteTask taskId summ output) now =
     map_sum id snd (completeTask st taskId summ output now)"
| "apply_operation st (UpdateTaskStatus taskId status) now =
     map_sum id snd (updateTaskStatus st taskId status now)"
| "apply_operation st (DeleteTask taskId) now = map_sum id snd (deleteTask st taskId now)"
| "apply_operation st (AcquireLock filePath agentId options) now =
     map_sum id snd (acquireLock st filePath agentId options now)"
| "apply_operation st (ReleaseLock filePath agentId modification) now =
     map_sum id snd (releaseLock st filePath agentId modification now)"
| "apply_operation st (GetLockStatus filePath) now = map_sum id snd (getLockStatus st filePath now)"
| "apply_operation st (DismissRefactorSuggestion suggestionId) now =
     map_sum id snd (dismissRefactorSuggestion st suggestionId now)"
| "apply_operation st (GetOrCreateCurrentAgent name newAgentId newSessionId) now =
     map_sum id snd (getOrCreateCurrentAgent st name newAgentId newSessionId now)"
| "apply_operation st (TakeoverAgent targetAgentId newAgentId newSessionId) now =
     map_sum id snd (takeoverAgent st targetAgentId newAgentId newSessionId now)"
| "apply_operation st (ForceReleaseLock filePath) now =
     map_sum id snd (forceReleaseLock st filePath now)"
| "apply_operation st CleanupExpiredLocks now = map_sum id snd (cleanupExpiredLocks st now)"
| "apply_operation st ListAgents now = listAgents_saved st now"
| "apply_operation st (RenameAgent newName) now = map_sum id snd (renameAgent st newName now)"
| "apply_operation st TouchAgent now = touchAgent st now"
| "apply_operation st DeactivateAgent now = map_sum id snd (deactivateAgent st now)"
| "apply_operation st (CleanupTerminatedAgents olderThanDays) now =
     map_sum id snd (cleanupTerminatedAgents st olderThanDays now)"

definition store_after :: "store \<Rightarrow> operation \<Rightarrow> int \<Rightarrow> store" where
  "store_after st call now =
     (case apply_operation st call now of Inl e \<Rightarrow> st | Inr st' \<Rightarrow> st')"

fun serial_run :: "store \<Rightarrow> (operation \<times> int) list \<Rightarrow> store" where
  "serial_run st [] = st"
| "serial_run st ((call, now) # later) = serial_run (store_after st call now) later"

text \<open>
  The calls that delete the task \<open>taskId\<close> or reset it: \<open>deleteTask\<close>, \<open>updateTaskStatus\<close>
  back to pending, and an \<open>addTask\<close> whose generated identifier collides with it (the new
  task then replaces the old one).
\<close>

fun resets_task :: "string \<Rightarrow> operation \<Rightarrow> bool" where
  "resets_task taskId (DeleteTask t) = (t = taskId)"
| "resets_task taskId (UpdateTaskStatus t status) = (t = taskId \<and> status = Pending)"
| "resets_task taskId (AddTask options t) = (t = taskId)"
| "resets_task taskId call = False"

subsection \<open>Predicates and example documents used by the theorems\<close>

text \<open>The task exists in the saved document and its status is not pending.\<close>

definition task_left_pending :: "string \<Rightarrow> store \<Rightarrow> bool" where
  "task_left_pending T st = (\<exists>w t. workflow_file st = Some w \<and> tasks w T = Some t \<and> task_status t \<noteq> Pending)"

text \<open>Documents and arguments for the examples.\<close>

definition example_task :: "string \<Rightarrow> TaskStatus \<Rightarrow> string option \<Rightarrow> string list \<Rightarrow> string list \<Rightarrow> Task" where
  "example_task taskId status agent dependencies dependents =
     \<lparr>task_id = taskId, task_name = taskId, task_description = [], task_status = status,
      task_priority = 3, task_assigned_agent = agent, task_dependencies = dependencies,
      task_dependents = dependents, task_context_from = None, task_files = [],
      task_result = None, task_async_execution = Some False, task_task_type = Some Task_t,
      task_condition = None,
      task_created_at = 0, task_updated_at = 0\<rparr>"

definition example_agent :: "string \<Rightarrow> string list \<Rightarrow> Agent" where
  "example_agent agentId claimed =
     \<lparr>agent_id = agentId, agent_name = agentId, claimed_tasks = claimed, session_id = None,
      agent_status = Active, last_active = 0, agent_created_at = 0\<rparr>"

definition example_workflow ::
  "(string \<rightharpoonup> Agent) \<Rightarrow> (string \<rightharpoonup> Task) \<Rightarrow> (string \<rightharpoonup> FileLock) \<Rightarrow> FileModification list \<Rightarrow> Workflow" where
  "example_workflow as ts ls ms =
     \<lparr>version = ''1.0'', project = ''demo'', created_at = 0, updated_at = 0,
      config = DEFAULT_CONFIG, agents = as, tasks = ts, locks = ls, modifications = ms,
      refactor_suggestions = []\<rparr>"

definition example_store :: "Workflow \<Rightarrow> string option \<Rightarrow> store" where
  "example_store w localId =
     \<lparr>projectRoot = ''/work'', workflow_file = Some w, agent_id_file = localId,
      outputs = Map.empty\<rparr>"

text \<open>Tasks A1 and A2 without dependencies, task B depending on both; one agent a1.\<close>

definition diamond_workflow :: Workflow where
  "diamond_workflow =
     example_workflow
       [''a1'' \<mapsto> example_agent ''a1'' []]
       [''A1'' \<mapsto> example_task ''A1'' Pending None [] [''B''],
        ''A2'' \<mapsto> example_task ''A2'' Pending None [] [''B''],
        ''B'' \<mapsto> example_task ''B'' Pending None [''A1'', ''A2''] []]
       Map.empty []"

lemmas example_defs = DEFAULT_CONFIG_def example_task_def example_agent_def example_workflow_def
  example_store_def diamond_workflow_def

definition example_options :: "string \<Rightarrow> int option \<Rightarrow> string list option \<Rightarrow> addTask_options" where
  "example_options name priority dependencies =
     \<lparr>opt_name = name, opt_description = [], opt_priority = priority,
      opt_dependencies = dependencies, opt_files = None, opt_async_execution = None,
      opt_task_type = None\<rparr>"

text \<open>
  The store after \<open>ea init\<close> and three \<open>addTask\<close> calls: A1, A2, and B depending on both.
\<close>

definition built_store :: store where
  "built_store =
     snd (projr (addTask
       (snd (projr (addTask
          (snd (projr (addTask (example_store (createDefaultWorkflow ''demo'' 0) None)
                         (example_options ''A1'' None None) ''A1'' 0)))
          (example_options ''A2'' None None) ''A2'' 0)))
       (example_options ''B'' None (Some [''A1'', ''A2''])) ''B'' 0))"

definition built_workflow :: Workflow where
  "built_workflow = the (workflow_file built_store)"

definition example_lock :: "string \<Rightarrow> string list \<Rightarrow> int \<Rightarrow> FileLock" where
  "example_lock owner methods expiry =
     \<lparr>locked_by = owner, locked_at = 0, expires_at = expiry, lock_methods = methods,
      lock_reason = ''edit'', lock_task_id = None\<rparr>"

text \<open>Agents a1 and a2; a1 holds a lease on f.ts for the method foo until time 10000.\<close>

definition lease_workflow :: Workflow where
  "lease_workflow =
     example_workflow
       [''a1'' \<mapsto> example_agent ''a1'' [], ''a2'' \<mapsto> example_agent ''a2'' []]
       Map.empty
       [''f.ts'' \<mapsto> example_lock ''a1'' [''foo''] 10000]
       []"

definition example_acquire :: "string list option \<Rightarrow> int option \<Rightarrow> acquire_options" where
  "example_acquire methods timeout =
     \<lparr>acq_methods = methods, acq_reason = ''more'', acq_timeout = timeout, acq_task_id = None\<rparr>"












text \<open>
  a1 holds the tasks T1 and T2 and a lease on g.ts; a2 holds nothing.
\<close>

definition takeover_workflow :: Workflow where
  "takeover_workflow =
     example_workflow
       [''a1'' \<mapsto> example_agent ''a1'' [''T1'', ''T2''], ''a2'' \<mapsto> example_agent ''a2'' []]
       [''T1'' \<mapsto> example_task ''T1'' In_progress (Some ''a1'') [] [],
        ''T2'' \<mapsto> example_task ''T2'' In_progress (Some ''a1'') [] []]
       [''g.ts'' \<mapsto> example_lock ''a1'' [''*''] 10000]
       []"

section \<open>Properties\<close>

text \<open>\<open>trim\<close> on ASCII and on multi-byte white space.\<close>

lemma trim_examples:
  "trim ''a2'' = ''a2''"
  "trim [CHR 0x20, CHR 0x09, CHR ''a'', CHR 0x20, CHR ''b'', CHR 0x0D, CHR 0x0A] = ''a b''"
  "trim [CHR 0xEF, CHR 0xBB, CHR 0xBF, CHR ''a'', CHR 0xC2, CHR 0xA0] = ''a''"
  "trim [CHR 0x0A] = []"
  by (simp_all add: trim_def white_space1_def white_space2_def white_space3_def)

lemma add_dependents_status:
  "map_option task_status (add_dependents tid ds ts T) = map_option task_status (ts T)"
  by (induction ds arbitrary: ts) (auto split: option.splits)

lemma strip_dependent_status:
  "map_option task_status (strip_dependent tid ds ts T) = map_option task_status (ts T)"
  by (induction ds arbitrary: ts) (auto split: option.splits)

lemma strip_dependency_status:
  "map_option task_status (strip_dependency tid ds ts T) = map_option task_status (ts T)"
  by (induction ds arbitrary: ts) (auto split: option.splits)

lemma transfer_tasks_status:
  "map_option task_status (fst (transfer_tasks ds ts cur) T) = map_option task_status (ts T)"
  by (induction ds arbitrary: ts cur) (auto split: option.splits)

lemma status_SomeD:
  "map_option task_status x = map_option task_status (Some t) \<Longrightarrow> \<exists>t'. x = Some t' \<and> task_status t' = task_status t"
  by (cases x) auto

lemma addTask_keeps:
  "task_left_pending T st \<Longrightarrow> tid \<noteq> T \<Longrightarrow> \<exists>r st'. addTask st opts tid now = Inr (r, st') \<and> task_left_pending T st'"
  unfolding task_left_pending_def
  apply (clarsimp simp: addTask_def load_def save_def Let_def)
  subgoal for w t
    using status_SomeD[of "add_dependents tid (case opt_dependencies opts of None \<Rightarrow> [] | Some ds \<Rightarrow> ds) (tasks w) T" t]
    by (auto simp: add_dependents_status)
  done

lemma claimTask_keeps:
  "task_left_pending T st \<Longrightarrow> claimTask st tid a now = Inr (r, st') \<Longrightarrow> task_left_pending T st'"
  unfolding task_left_pending_def
  by (auto simp: claimTask_def load_def save_def Let_def isTaskAvailable_def get_property_def
           split: option.splits property.splits if_splits)

lemma completeTask_keeps:
  "task_left_pending T st \<Longrightarrow> \<exists>r st'. completeTask st tid s out now = Inr (r, st') \<and> task_left_pending T st'"
  unfolding task_left_pending_def
  by (auto simp: completeTask_def completed_workflow_def load_def save_def Let_def writeOutput_def split: option.splits prod.splits)

lemma updateTaskStatus_keeps:
  "task_left_pending T st \<Longrightarrow> \<not> (tid = T \<and> s = Pending) \<Longrightarrow> \<exists>r st'. updateTaskStatus st tid s now = Inr (r, st') \<and> task_left_pending T st'"
  unfolding task_left_pending_def
  by (auto simp: updateTaskStatus_def load_def save_def Let_def split: option.splits prod.splits)

lemma deleteTask_keeps:
  assumes "task_left_pending T st" "tid \<noteq> T"
  shows "\<exists>r st'. deleteTask st tid now = Inr (r, st') \<and> task_left_pending T st'"
proof -
  from assms obtain w t where w: "workflow_file st = Some w" "tasks w T = Some t" "task_status t \<noteq> Pending"
    unfolding task_left_pending_def by auto
  show ?thesis
  proof (cases "tasks w tid")
    case None
    then show ?thesis using w assms by (auto simp: deleteTask_def load_def)
  next
    case (Some t2)
    define ts1 where "ts1 = strip_dependent tid (task_dependencies t2) (tasks w)"
    define ts2 where "ts2 = strip_dependency tid (case ts1 tid of None \<Rightarrow> [] | Some t1 \<Rightarrow> task_dependents t1) ts1"
    have "map_option task_status (ts2 T) = map_option task_status (Some t)"
      using w by (simp add: ts2_def ts1_def strip_dependency_status strip_dependent_status)
    then obtain t' where t': "ts2 T = Some t'" "task_status t' = task_status t"
      using status_SomeD by blast
    show ?thesis
      using w assms(2) Some t' unfolding task_left_pending_def
      by (auto simp add: deleteTask_def load_def save_def Let_def ts2_def[symmetric] ts1_def[symmetric])
  qed
qed

lemma acquireLock_keeps:
  "task_left_pending T st \<Longrightarrow> acquireLock st p a opts now = Inr (r, st') \<Longrightarrow> task_left_pending T st'"
  unfolding task_left_pending_def
  by (auto simp: acquireLock_def createLock_def load_def save_def Let_def get_property_def
           split: option.splits property.splits if_splits sum.splits)

lemma checkRefactorSuggestion_tasks: "tasks (checkRefactorSuggestion w p m now) = tasks w"
  by (simp add: checkRefactorSuggestion_def Let_def split: option.splits)

lemma releaseLock_keeps:
  "task_left_pending T st \<Longrightarrow> \<exists>r st'. releaseLock st p a m now = Inr (r, st') \<and> task_left_pending T st'"
  unfolding task_left_pending_def
  by (auto simp: releaseLock_def checkRefactorSuggestion_tasks load_def save_def Let_def split: option.splits)

lemma getLockStatus_keeps:
  "task_left_pending T st \<Longrightarrow> \<exists>r st'. getLockStatus st p now = Inr (r, st') \<and> task_left_pending T st'"
  unfolding task_left_pending_def
  by (auto simp: getLockStatus_def load_def save_def Let_def split: option.splits)

lemma dismiss_keeps:
  "task_left_pending T st \<Longrightarrow> \<exists>r st'. dismissRefactorSuggestion st p now = Inr (r, st') \<and> task_left_pending T st'"
  unfolding task_left_pending_def
  by (auto simp: dismissRefactorSuggestion_def load_def save_def Let_def split: option.splits)

lemma getOrCreate_keeps:
  "task_left_pending T st \<Longrightarrow> \<exists>r st'. getOrCreateCurrentAgent st n i s now = Inr (r, st') \<and> task_left_pending T st'"
  unfolding task_left_pending_def
  by (auto simp: getOrCreateCurrentAgent_def saveLocalAgentId_def load_def save_def Let_def split: option.splits)

lemma getOrCreate_file:
  "getOrCreateCurrentAgent st n i s now = Inr (r, st') \<Longrightarrow> \<exists>w'. workflow_file st' = Some w'"
  by (auto simp: getOrCreateCurrentAgent_def saveLocalAgentId_def load_def save_def Let_def split: option.splits if_splits)

lemma takeover_keeps:
  assumes a: "task_left_pending T st"
  shows "\<exists>r st'. takeoverAgent st tgt i s now = Inr (r, st') \<and> task_left_pending T st'"
proof -
  from a obtain w t where w: "workflow_file st = Some w" "tasks w T = Some t" "task_status t \<noteq> Pending"
    unfolding task_left_pending_def by auto
  from getOrCreate_keeps[OF a] obtain cur st1 where
    g: "getOrCreateCurrentAgent st None i s now = Inr (cur, st1)" "task_left_pending T st1" by blast
  show ?thesis
  proof (cases "agents w tgt")
    case None
    then show ?thesis using w a by (simp add: takeoverAgent_def load_def)
  next
    case (Some target)
    show ?thesis
    proof (cases "agent_status target = Terminated \<or> agent_id cur = tgt")
      case True
      then show ?thesis using w a g Some by (auto simp: takeoverAgent_def load_def)
    next
      case False
      have "map_option task_status (fst (transfer_tasks (claimed_tasks target) (tasks w) cur) T)
              = map_option task_status (Some t)"
        using w by (simp add: transfer_tasks_status)
      then obtain t' where t': "fst (transfer_tasks (claimed_tasks target) (tasks w) cur) T = Some t'"
          "task_status t' = task_status t"
        using status_SomeD by blast
      show ?thesis
        using w g(1) Some False t' unfolding task_left_pending_def
        by (simp add: takeoverAgent_def load_def save_def Let_def case_prod_beta)
    qed
  qed
qed

lemma forceReleaseLock_keeps:
  "task_left_pending T st \<Longrightarrow> \<exists>r st'. forceReleaseLock st p now = Inr (r, st') \<and> task_left_pending T st'"
  unfolding task_left_pending_def
  by (auto simp: forceReleaseLock_def load_def save_def Let_def split: option.splits)

lemma cleanupExpiredLocks_keeps:
  "task_left_pending T st \<Longrightarrow> \<exists>r st'. cleanupExpiredLocks st now = Inr (r, st') \<and> task_left_pending T st'"
  unfolding task_left_pending_def
  by (auto simp: cleanupExpiredLocks_def load_def save_def Let_def)

lemma listAgents_keeps:
  "task_left_pending T st \<Longrightarrow> \<exists>st'. listAgents_saved st now = Inr st' \<and> task_left_pending T st'"
  unfolding task_left_pending_def
  by (auto simp: listAgents_saved_def load_def save_def)

lemma renameAgent_keeps:
  "task_left_pending T st \<Longrightarrow> \<exists>r st'. renameAgent st n now = Inr (r, st') \<and> task_left_pending T st'"
  unfolding task_left_pending_def
  by (auto simp: renameAgent_def load_def save_def split: option.splits)

lemma touchAgent_keeps:
  "task_left_pending T st \<Longrightarrow> \<exists>st'. touchAgent st now = Inr st' \<and> task_left_pending T st'"
  unfolding task_left_pending_def
  by (auto simp: touchAgent_def load_def save_def split: option.splits)

lemma deactivateAgent_keeps:
  "task_left_pending T st \<Longrightarrow> \<exists>r st'. deactivateAgent st now = Inr (r, st') \<and> task_left_pending T st'"
  unfolding task_left_pending_def
  by (auto simp: deactivateAgent_def clearLocalAgentId_def load_def save_def split: option.splits)

lemma cleanupTerminatedAgents_keeps:
  "task_left_pending T st \<Longrightarrow>
   \<exists>r st'. cleanupTerminatedAgents st d now = Inr (r, st') \<and> task_left_pending T st'"
  unfolding task_left_pending_def
  by (auto simp: cleanupTerminatedAgents_def load_def save_def Let_def)

lemma store_after_keeps:
  assumes "task_left_pending T st" "\<not> resets_task T call"
  shows "task_left_pending T (store_after st call now)"
proof (cases call)
  case (AddTask opts tid)
  then show ?thesis using addTask_keeps[of T st tid opts now] assms
    by (auto simp: store_after_def)
next
  case (ClaimTask tid a)
  show ?thesis
  proof (cases "claimTask st tid a now")
    case (Inl e)
    then show ?thesis using ClaimTask assms by (simp add: store_after_def)
  next
    case (Inr x)
    then show ?thesis using ClaimTask assms claimTask_keeps[of T st tid a now "fst x" "snd x"]
      by (simp add: store_after_def)
  qed
next
  case (CompleteTask tid s out)
  then show ?thesis using completeTask_keeps[of T st tid s out now] assms
    by (auto simp: store_after_def)
next
  case (UpdateTaskStatus tid s)
  then show ?thesis using updateTaskStatus_keeps[of T st tid s now] assms
    by (auto simp: store_after_def)
next
  case (DeleteTask tid)
  then show ?thesis using deleteTask_keeps[of T st tid now] assms
    by (auto simp: store_after_def)
next
  case (AcquireLock p a opts)
  show ?thesis
  proof (cases "acquireLock st p a opts now")
    case (Inl e)
    then show ?thesis using AcquireLock assms by (simp add: store_after_def)
  next
    case (Inr x)
    then show ?thesis using AcquireLock assms acquireLock_keeps[of T st p a opts now "fst x" "snd x"]
      by (simp add: store_after_def)
  qed
next
  case (ReleaseLock p a m)
  then show ?thesis using releaseLock_keeps[of T st p a m now] assms
    by (auto simp: store_after_def)
next
  case (GetLockStatus p)
  then show ?thesis using getLockStatus_keeps[of T st p now] assms
    by (auto simp: store_after_def)
next
  case (DismissRefactorSuggestion i)
  then show ?thesis using dismiss_keeps[of T st i now] assms
    by (auto simp: store_after_def)
next
  case (GetOrCreateCurrentAgent n i s)
  then show ?thesis using getOrCreate_keeps[of T st n i s now] assms
    by (auto simp: store_after_def)
next
  case (TakeoverAgent tgt i s)
  then show ?thesis using takeover_keeps[of T st tgt i s now] assms
    by (auto simp: store_after_def)
next
  case (ForceReleaseLock p)
  then show ?thesis using forceReleaseLock_keeps[of T st p now] assms
    by (auto simp: store_after_def)
next
  case CleanupExpiredLocks
  then show ?thesis using cleanupExpiredLocks_keeps[of T st now] assms
    by (auto simp: store_after_def)
next
  case ListAgents
  then show ?thesis using listAgents_keeps[of T st now] assms
    by (auto simp: store_after_def)
next
  case (RenameAgent n)
  then show ?thesis using renameAgent_keeps[of T st n now] assms
    by (auto simp: store_after_def)
next
  case TouchAgent
  then show ?thesis using touchAgent_keeps[of T st now] assms
    by (auto simp: store_after_def)
next
  case DeactivateAgent
  then show ?thesis using deactivateAgent_keeps[of T st now] assms
    by (auto simp: store_after_def)
next
  case (CleanupTerminatedAgents d)
  then show ?thesis using cleanupTerminatedAgents_keeps[of T st d now] assms
    by (auto simp: store_after_def)
qed

lemma serial_run_keeps:
  "task_left_pending T st \<Longrightarrow> \<forall>c \<in> set calls. \<not> resets_task T (fst c) \<Longrightarrow>
   task_left_pending T (serial_run st calls)"
proof (induction calls arbitrary: st)
  case Nil
  then show ?case by simp
next
  case (Cons c calls)
  obtain call now where c: "c = (call, now)" by (cases c)
  with Cons.prems have "task_left_pending T (store_after st call now)"
    using store_after_keeps[of T st call now] by auto
  from Cons.IH[OF this] Cons.prems(2) show ?case using c by simp
qed

lemma claimTask_success_claimed:
  "claimTask st T a now = Inr (r, st') \<Longrightarrow> claim_success r \<Longrightarrow> task_left_pending T st'"
  unfolding task_left_pending_def
  by (auto simp: claimTask_def load_def save_def Let_def get_property_def
           split: option.splits sum.splits if_splits property.splits)

lemma claimTask_claimed_fails:
  "task_left_pending T st \<Longrightarrow>
   \<exists>s. s \<noteq> Pending \<and>
       claimTask st T a now =
         Inr (\<lparr>claim_success = False,
               claim_message = ''Task is already '' @ status_toString s,
               claim_task = None, claim_agent_id = None\<rparr>, st)"
  unfolding task_left_pending_def
  by (auto simp: claimTask_def load_def isTaskAvailable_def get_property_def)

lemma dependencies_completed_iff:
  "dependencies_completed w ds \<longleftrightarrow>
     (\<forall>d \<in> set ds. \<exists>dep. tasks w d = Some dep \<and> task_status dep = Completed)"
  by (induction ds) (auto split: option.splits)

lemma isTaskAvailable_iff:
  "isTaskAvailable t w \<longleftrightarrow>
     task_status t = Pending \<and>
     (task_assigned_agent t = None \<or> task_assigned_agent t = Some []) \<and>
     (\<forall>d \<in> set (task_dependencies t). \<exists>dep. tasks w d = Some dep \<and> task_status dep = Completed)"
  by (auto simp: isTaskAvailable_def truthy_def dependencies_completed_iff split: option.splits)

lemma isTaskAvailable_tasks_cong:
  "tasks w1 = tasks w2 \<Longrightarrow> isTaskAvailable t w1 = isTaskAvailable t w2"
  by (simp add: isTaskAvailable_iff)

lemma isTaskAvailable_updated_at:
  "isTaskAvailable t (w\<lparr>updated_at := x\<rparr>) = isTaskAvailable t w"
  by (rule isTaskAvailable_tasks_cong) simp

lemma collect_unblocked_filter:
  "collect_unblocked w ds acc =
     acc @ filter (\<lambda>d. \<exists>dep. tasks w d = Some dep \<and> isTaskAvailable dep w) ds"
  by (induction ds arbitrary: acc) (auto split: option.splits)

lemma tasks_completed_workflow:
  "tasks (completed_workflow w tid t s ref now) =
     (tasks w)(tid \<mapsto> t\<lparr>task_status := Completed,
                         task_result := Some \<lparr>completed_at = now, summary = s, output_ref = ref\<rparr>,
                         task_updated_at := now\<rparr>)"
  by (simp add: completed_workflow_def Let_def)

lemma completeTask_success:
  assumes "workflow_file st = Some w" "tasks w tid = Some t" "task_status t \<noteq> Completed"
  shows "\<exists>ref st1 w'. w' = completed_workflow w tid t s ref now \<and>
           completeTask st tid s out now =
             Inr (\<lparr>complete_success = True, complete_message = ''Task '' @ tid @ '' completed'',
                   unblocked_tasks = Some (filter (\<lambda>d. \<exists>dep. tasks w' d = Some dep \<and> isTaskAvailable dep w')
                                             (task_dependents t))\<rparr>,
                  st1) \<and>
           workflow_file st1 = Some (w'\<lparr>updated_at := now\<rparr>)"
  using assms
  by (auto simp: completeTask_def load_def save_def Let_def writeOutput_def collect_unblocked_filter
           split: option.splits)

lemma completeTask_result:
  assumes "workflow_file st = Some w" "tasks w taskId = Some t" "task_status t \<noteq> Completed"
  shows "\<exists>r st' w' t'. completeTask st taskId summ output now = Inr (r, st') \<and> complete_success r \<and>
           workflow_file st' = Some w' \<and> tasks w' taskId = Some t' \<and> task_status t' = Completed \<and>
           (\<forall>k. k \<noteq> taskId \<longrightarrow> tasks w' k = tasks w k) \<and>
           unblocked_tasks r =
             Some (filter (\<lambda>d. \<exists>dep. tasks w' d = Some dep \<and> isTaskAvailable dep w') (task_dependents t))"
proof -
  from completeTask_success[OF assms, of summ now "output"] obtain ref st1 w' where
    h: "w' = completed_workflow w taskId t summ ref now"
       "completeTask st taskId summ output now =
             Inr (\<lparr>complete_success = True, complete_message = ''Task '' @ taskId @ '' completed'',
                   unblocked_tasks = Some (filter (\<lambda>d. \<exists>dep. tasks w' d = Some dep \<and> isTaskAvailable dep w')
                                             (task_dependents t))\<rparr>,
                  st1)"
       "workflow_file st1 = Some (w'\<lparr>updated_at := now\<rparr>)" by blast
  show ?thesis
    using h by (simp add: isTaskAvailable_updated_at tasks_completed_workflow)
qed

lemma completeTask_two_dependencies:
  assumes st: "workflow_file st = Some w"
    and A1: "tasks w A1 = Some tA1" "task_status tA1 \<noteq> Completed"
    and A2: "tasks w A2 = Some tA2" "task_status tA2 \<noteq> Completed"
    and B: "tasks w B = Some tB" "task_status tB = Pending" "\<not> truthy (task_assigned_agent tB)"
           "set (task_dependencies tB) = {A1, A2}"
    and ne: "A1 \<noteq> A2" "B \<noteq> A1" "B \<noteq> A2"
    and rev: "B \<in> set (task_dependents tA2)"
  shows "\<exists>r1 st1 u1 r2 st2 u2.
           completeTask st A1 s1 o1 n1 = Inr (r1, st1) \<and> unblocked_tasks r1 = Some u1 \<and> B \<notin> set u1 \<and>
           completeTask st1 A2 s2 o2 n2 = Inr (r2, st2) \<and> unblocked_tasks r2 = Some u2 \<and> B \<in> set u2"
proof -
  from completeTask_result[OF st A1, of s1 o1 n1] obtain r1 st1 w1 t1 where
    c1: "completeTask st A1 s1 o1 n1 = Inr (r1, st1)" "workflow_file st1 = Some w1"
        "tasks w1 A1 = Some t1" "task_status t1 = Completed"
        "\<forall>k. k \<noteq> A1 \<longrightarrow> tasks w1 k = tasks w k"
        "unblocked_tasks r1 =
           Some (filter (\<lambda>d. \<exists>dep. tasks w1 d = Some dep \<and> isTaskAvailable dep w1) (task_dependents tA1))"
    by blast
  have w1A2: "tasks w1 A2 = Some tA2" and w1B: "tasks w1 B = Some tB"
    using c1(5) ne A2 B by auto
  have nB1: "\<not> isTaskAvailable tB w1"
    using w1A2 A2(2) B(4) by (auto simp: isTaskAvailable_iff)
  from completeTask_result[OF c1(2) w1A2 A2(2), of s2 o2 n2] obtain r2 st2 w2 t2 where
    c2: "completeTask st1 A2 s2 o2 n2 = Inr (r2, st2)" "workflow_file st2 = Some w2"
        "tasks w2 A2 = Some t2" "task_status t2 = Completed"
        "\<forall>k. k \<noteq> A2 \<longrightarrow> tasks w2 k = tasks w1 k"
        "unblocked_tasks r2 =
           Some (filter (\<lambda>d. \<exists>dep. tasks w2 d = Some dep \<and> isTaskAvailable dep w2) (task_dependents tA2))"
    by blast
  have w2A1: "tasks w2 A1 = Some t1" and w2B: "tasks w2 B = Some tB"
    using c2(5) c1(3) w1B ne by auto
  have aB2: "isTaskAvailable tB w2"
    using w2A1 c1(4) c2(3,4) B by (auto simp: isTaskAvailable_iff truthy_def split: option.splits)
  show ?thesis
    using c1(1,6) c2(1,6) w1B nB1 w2B aB2 rev by auto
qed

text \<open>
  Claim C4. For every task \<open>t\<close> and document \<open>w\<close>, \<open>isTaskAvailable\<close> returns true if and
  only if the status of \<open>t\<close> is pending, \<open>t\<close> has no assigned agent (the field is \<open>null\<close>, or
  the empty string, which the test \<open>if (task.assigned_agent)\<close> does not tell from \<open>null\<close>), and
  every identifier in the dependencies of \<open>t\<close> names a task that exists in \<open>w\<close> with status
  completed. A dependency that is missing from the document makes the task unavailable.
\<close>

theorem isTaskAvailable_spec:
  "isTaskAvailable t w \<longleftrightarrow>
     task_status t = Pending \<and>
     (task_assigned_agent t = None \<or> task_assigned_agent t = Some []) \<and>
     (\<forall>d \<in> set (task_dependencies t). \<exists>dep. tasks w d = Some dep \<and> task_status dep = Completed)"
  by (rule isTaskAvailable_iff)

theorem isTaskAvailable_spec_witness:
  "isTaskAvailable (example_task ''A1'' Pending None [] [''B'']) diamond_workflow \<and>
   \<not> isTaskAvailable (example_task ''B'' Pending None [''A1'', ''A2''] []) diamond_workflow \<and>
   \<not> isTaskAvailable (example_task ''C'' Pending None [''missing''] []) diamond_workflow \<and>
   \<not> isTaskAvailable (example_task ''A1'' Pending (Some ''a1'') [] [''B'']) diamond_workflow"
  using isTaskAvailable_spec[of "example_task ''A1'' Pending None [] [''B'']" diamond_workflow]
        isTaskAvailable_spec[of "example_task ''B'' Pending None [''A1'', ''A2''] []" diamond_workflow]
        isTaskAvailable_spec[of "example_task ''C'' Pending None [''missing''] []" diamond_workflow]
        isTaskAvailable_spec[of "example_task ''A1'' Pending (Some ''a1'') [] [''B'']" diamond_workflow]
  by (simp add: example_defs)



text \<open>
  For an agent identifier that is neither a key of the agents collection nor the name of a
  member of \<open>Object.prototype\<close>, the claim of an available task succeeds and no agent record
  is created or changed.
\<close>

lemma claimTask_absent_agent:
  assumes "workflow_file st = Some w" "tasks w taskId = Some t" "isTaskAvailable t w"
    and "agents w agentId = None" "agentId \<notin> set object_prototype_members"
  shows "\<exists>r st' w' t'. claimTask st taskId agentId now = Inr (r, st') \<and> claim_success r \<and>
           claim_agent_id r = Some agentId \<and> claim_task r = Some t' \<and>
           workflow_file st' = Some w' \<and> tasks w' taskId = Some t' \<and>
           task_status t' = In_progress \<and> task_assigned_agent t' = Some agentId \<and>
           agents w' = agents w"
  using assms by (auto simp: claimTask_def load_def save_def Let_def get_property_def)

text \<open>
  Claim C10 does not hold of the code. The task A1 is available and constructor is not a key
  of the agents collection, yet \<open>claimTask\<close> of A1 for that agent identifier does not
  succeed: \<open>workflow.agents[agentId]\<close> finds the member inherited from \<open>Object.prototype\<close>, the
  test \<open>if (agent)\<close> lets it pass, and \<open>agent.claimed_tasks.includes\<close> throws \<open>TypeError\<close> before
  the document is saved.
\<close>

theorem claimTask_inherited_agent_key:
  "agents diamond_workflow ''constructor'' = None \<and>
   tasks diamond_workflow ''A1'' = Some (example_task ''A1'' Pending None [] [''B'']) \<and>
   isTaskAvailable (example_task ''A1'' Pending None [] [''B'']) diamond_workflow \<and>
   claimTask (example_store diamond_workflow None) ''A1'' ''constructor'' 7 = Inl TypeError"
  by (simp add: claimTask_def load_def Let_def get_property_def object_prototype_members_def
        isTaskAvailable_def truthy_def example_store_def diamond_workflow_def
        example_workflow_def example_task_def)

lemma claim_messages_distinct:
  "''Task is already '' @ status_toString s \<noteq> ''Task is already assigned to '' @ a"
  "''Task is already '' @ status_toString s \<noteq> ''Task dependencies not completed''"
  "''Task is already assigned to '' @ a \<noteq> ''Task dependencies not completed''"
  by (cases s; simp add: status_toString_def)+

text \<open>
  The answers of \<open>claimTask\<close> on an initialised store, for a task identifier that is not the
  name of a member of \<open>Object.prototype\<close>: the not-found message when the task is absent,
  and one message per cause when it is not available.
\<close>

lemma claimTask_failures:
  assumes "workflow_file st = Some w"
  shows "(tasks w taskId = None \<and> taskId \<notin> set object_prototype_members \<longrightarrow>
            claimTask st taskId agentId now =
              Inr (\<lparr>claim_success = False,
                    claim_message = ''Task '' @ taskId @ '' not found'',
                    claim_task = None, claim_agent_id = None\<rparr>, st)) \<and>
         (\<forall>t. tasks w taskId = Some t \<and> task_status t \<noteq> Pending \<longrightarrow>
            claimTask st taskId agentId now =
              Inr (\<lparr>claim_success = False,
                    claim_message = ''Task is already '' @ status_toString (task_status t),
                    claim_task = None, claim_agent_id = None\<rparr>, st)) \<and>
         (\<forall>t a. tasks w taskId = Some t \<and> task_status t = Pending \<and>
                task_assigned_agent t = Some a \<and> a \<noteq> [] \<longrightarrow>
            claimTask st taskId agentId now =
              Inr (\<lparr>claim_success = False,
                    claim_message = ''Task is already assigned to '' @ a,
                    claim_task = None, claim_agent_id = None\<rparr>, st)) \<and>
         (\<forall>t. tasks w taskId = Some t \<and> task_status t = Pending \<and>
              \<not> truthy (task_assigned_agent t) \<and>
              (\<exists>d \<in> set (task_dependencies t).
                 \<forall>dep. tasks w d = Some dep \<longrightarrow> task_status dep \<noteq> Completed) \<longrightarrow>
            claimTask st taskId agentId now =
              Inr (\<lparr>claim_success = False,
                    claim_message = ''Task dependencies not completed'',
                    claim_task = None, claim_agent_id = None\<rparr>, st))"
  using assms
  by (auto simp: claimTask_def load_def isTaskAvailable_def truthy_def get_property_def
        dependencies_completed_iff)

text \<open>
  Once \<open>claimTask\<close> has succeeded for a task, after any serialised sequence of coordinator
  calls that neither deletes nor resets the task, a \<open>claimTask\<close> on it by any agent fails
  with the message for a status that is not pending.
\<close>

lemma claimTask_exclusive:
  assumes "claimTask st taskId agentId now = Inr (r, st1)" "claim_success r"
    and "\<forall>c \<in> set calls. \<not> resets_task taskId (fst c)"
  shows "\<exists>s. s \<noteq> Pending \<and>
           claimTask (serial_run st1 calls) taskId agentId' now' =
             Inr (\<lparr>claim_success = False,
                   claim_message = ''Task is already '' @ status_toString s,
                   claim_task = None, claim_agent_id = None\<rparr>, serial_run st1 calls)"
proof -
  have "task_left_pending taskId st1"
    using assms(1,2) by (rule claimTask_success_claimed)
  then have "task_left_pending taskId (serial_run st1 calls)"
    using assms(3) by (rule serial_run_keeps)
  then show ?thesis by (rule claimTask_claimed_fails)
qed

text \<open>
  Claim C5 does not hold of the code. The document has no task named constructor, yet
  \<open>claimTask\<close> on that identifier does not answer with the not-found message:
  \<open>workflow.tasks[taskId]\<close> finds the member that a plain object inherits from
  \<open>Object.prototype\<close>, the test \<open>if (!task)\<close> lets it pass, and the answer is the one for a
  task whose status is not pending, "Task is already undefined". The store is unchanged.
\<close>

theorem claimTask_inherited_task_key:
  "tasks diamond_workflow ''constructor'' = None \<and>
   claimTask (example_store diamond_workflow None) ''constructor'' ''a1'' 1 =
     Inr (\<lparr>claim_success = False, claim_message = ''Task is already undefined'',
           claim_task = None, claim_agent_id = None\<rparr>,
          example_store diamond_workflow None)"
  by (simp add: claimTask_def load_def get_property_def object_prototype_members_def
        example_store_def diamond_workflow_def example_workflow_def)

text \<open>
  Claim C6. A successful \<open>completeTask\<close> returns as unblocked exactly the dependents of the
  task that exist and satisfy \<open>isTaskAvailable\<close> in the saved document, in which the task is
  completed. Consequently, for a pending, unassigned task \<open>B\<close> whose dependencies are the task
  and another task \<open>A2\<close> that is not completed, and which is listed among the dependents of
  \<open>A2\<close>: completing the task does not report \<open>B\<close>, and completing \<open>A2\<close> afterwards does.
\<close>

theorem completeTask_unblocked_dependents:
  assumes "workflow_file st = Some w" "tasks w taskId = Some t" "task_status t \<noteq> Completed"
  shows "\<exists>r st' w' u.
           completeTask st taskId summ output now = Inr (r, st') \<and> complete_success r \<and>
           workflow_file st' = Some w' \<and>
           (\<exists>t'. tasks w' taskId = Some t' \<and> task_status t' = Completed) \<and>
           unblocked_tasks r = Some u \<and>
           u = filter (\<lambda>d. \<exists>dep. tasks w' d = Some dep \<and> isTaskAvailable dep w') (task_dependents t) \<and>
           (\<forall>A2 B tA2 tB summ2 output2 now2.
              tasks w A2 = Some tA2 \<and> task_status tA2 \<noteq> Completed \<and>
              tasks w B = Some tB \<and> task_status tB = Pending \<and>
              \<not> truthy (task_assigned_agent tB) \<and>
              set (task_dependencies tB) = {taskId, A2} \<and>
              taskId \<noteq> A2 \<and> B \<noteq> taskId \<and> B \<noteq> A2 \<and> B \<in> set (task_dependents tA2) \<longrightarrow>
              B \<notin> set u \<and>
              (\<exists>r2 st2 u2. completeTask st' A2 summ2 output2 now2 = Inr (r2, st2) \<and>
                 unblocked_tasks r2 = Some u2 \<and> B \<in> set u2))"
proof -
  from completeTask_result[OF assms, of summ "output" now] obtain r st' w' t' where
    c: "completeTask st taskId summ output now = Inr (r, st')" "complete_success r"
       "workflow_file st' = Some w'" "tasks w' taskId = Some t'" "task_status t' = Completed"
       "unblocked_tasks r =
          Some (filter (\<lambda>d. \<exists>dep. tasks w' d = Some dep \<and> isTaskAvailable dep w') (task_dependents t))"
    by blast
  have "B \<notin> set (filter (\<lambda>d. \<exists>dep. tasks w' d = Some dep \<and> isTaskAvailable dep w') (task_dependents t)) \<and>
        (\<exists>r2 st2 u2. completeTask st' A2 summ2 output2 now2 = Inr (r2, st2) \<and>
           unblocked_tasks r2 = Some u2 \<and> B \<in> set u2)"
    if h: "tasks w A2 = Some tA2 \<and> task_status tA2 \<noteq> Completed \<and>
           tasks w B = Some tB \<and> task_status tB = Pending \<and>
           \<not> truthy (task_assigned_agent tB) \<and>
           set (task_dependencies tB) = {taskId, A2} \<and>
           taskId \<noteq> A2 \<and> B \<noteq> taskId \<and> B \<noteq> A2 \<and> B \<in> set (task_dependents tA2)"
    for A2 B tA2 tB summ2 output2 now2
  proof -
    from h completeTask_two_dependencies[OF assms(1) assms(2) assms(3), of A2 tA2 B tB summ "output" now summ2 output2 now2]
    obtain r1 st1 u1 r2 st2 u2 where
      t: "completeTask st taskId summ output now = Inr (r1, st1)" "unblocked_tasks r1 = Some u1"
         "B \<notin> set u1" "completeTask st1 A2 summ2 output2 now2 = Inr (r2, st2)"
         "unblocked_tasks r2 = Some u2" "B \<in> set u2"
      by blast
    from t(1) c(1) have "r1 = r" "st1 = st'" by simp_all
    with t c(6) show ?thesis by auto
  qed
  with c show ?thesis by blast
qed

theorem completeTask_unblocked_dependents_witness:
  "workflow_file built_store = Some built_workflow \<and>
   (\<exists>r1 st1 u1 r2 st2 u2.
      completeTask built_store ''A1'' ''done'' None 1 = Inr (r1, st1) \<and>
      unblocked_tasks r1 = Some u1 \<and> ''B'' \<notin> set u1 \<and>
      completeTask st1 ''A2'' ''done'' None 2 = Inr (r2, st2) \<and>
      unblocked_tasks r2 = Some u2 \<and> ''B'' \<in> set u2)"
proof -
  let ?st = "built_store"
  have b: "workflow_file built_store \<noteq> None"
    by (simp add: built_store_def addTask_def load_def save_def Let_def example_store_def)
  have h1: "workflow_file ?st = Some built_workflow"
    using b by (simp add: built_workflow_def)
  have tA1: "tasks built_workflow ''A1'' = Some (example_task ''A1'' Pending None [] [''B''])"
    and tA2: "tasks built_workflow ''A2'' = Some (example_task ''A2'' Pending None [] [''B''])"
    and tB: "tasks built_workflow ''B'' = Some (example_task ''B'' Pending None [''A1'', ''A2''] [])"
    by (simp_all add: built_workflow_def built_store_def addTask_def load_def save_def Let_def
          example_store_def createDefaultWorkflow_def example_options_def example_task_def)
  have s: "task_status (example_task ''A1'' Pending None [] [''B'']) \<noteq> Completed"
    by (simp add: example_task_def)
  have hyp: "tasks built_workflow ''A2'' = Some (example_task ''A2'' Pending None [] [''B'']) \<and>
      task_status (example_task ''A2'' Pending None [] [''B'']) \<noteq> Completed \<and>
      tasks built_workflow ''B'' = Some (example_task ''B'' Pending None [''A1'', ''A2''] []) \<and>
      task_status (example_task ''B'' Pending None [''A1'', ''A2''] []) = Pending \<and>
      \<not> truthy (task_assigned_agent (example_task ''B'' Pending None [''A1'', ''A2''] [])) \<and>
      set (task_dependencies (example_task ''B'' Pending None [''A1'', ''A2''] [])) = {''A1'', ''A2''} \<and>
      ''A1'' \<noteq> ''A2'' \<and> ''B'' \<noteq> ''A1'' \<and> ''B'' \<noteq> ''A2'' \<and>
      ''B'' \<in> set (task_dependents (example_task ''A2'' Pending None [] [''B'']))"
    using tA2 tB by (simp add: example_task_def truthy_def)
  from completeTask_unblocked_dependents[OF h1 tA1 s, of "''done''" None 1]
  obtain r st' w' u where
    big: "completeTask ?st ''A1'' ''done'' None 1 = Inr (r, st') \<and> complete_success r \<and>
           workflow_file st' = Some w' \<and>
           (\<exists>t'. tasks w' ''A1'' = Some t' \<and> task_status t' = Completed) \<and>
           unblocked_tasks r = Some u \<and>
           u = filter (\<lambda>d. \<exists>dep. tasks w' d = Some dep \<and> isTaskAvailable dep w')
                 (task_dependents (example_task ''A1'' Pending None [] [''B''])) \<and>
           (\<forall>A2 B tA2 tB summ2 output2 now2.
              tasks built_workflow A2 = Some tA2 \<and> task_status tA2 \<noteq> Completed \<and>
              tasks built_workflow B = Some tB \<and> task_status tB = Pending \<and>
              \<not> truthy (task_assigned_agent tB) \<and>
              set (task_dependencies tB) = {''A1'', A2} \<and>
              ''A1'' \<noteq> A2 \<and> B \<noteq> ''A1'' \<and> B \<noteq> A2 \<and> B \<in> set (task_dependents tA2) \<longrightarrow>
              B \<notin> set u \<and>
              (\<exists>r2 st2 u2. completeTask st' A2 summ2 output2 now2 = Inr (r2, st2) \<and>
                 unblocked_tasks r2 = Some u2 \<and> B \<in> set u2))"
    by (elim exE) (erule that)
  note a = big[THEN conjunct1]
    big[THEN conjunct2, THEN conjunct2, THEN conjunct2, THEN conjunct2, THEN conjunct1]
  note b = big[THEN conjunct2, THEN conjunct2, THEN conjunct2, THEN conjunct2, THEN conjunct2,
               THEN conjunct2, THEN spec, THEN spec, THEN spec, THEN spec, THEN spec, THEN spec,
               THEN spec, THEN mp]
  from b[OF hyp, of "''done''" None 2] obtain r2 st2 u2 where
    d: "''B'' \<notin> set u" "completeTask st' ''A2'' ''done'' None 2 = Inr (r2, st2)"
       "unblocked_tasks r2 = Some u2" "''B'' \<in> set u2"
    by (elim exE conjE)
  have "\<exists>r1 st1 u1 r2 st2 u2.
      completeTask ?st ''A1'' ''done'' None 1 = Inr (r1, st1) \<and>
      unblocked_tasks r1 = Some u1 \<and> ''B'' \<notin> set u1 \<and>
      completeTask st1 ''A2'' ''done'' None 2 = Inr (r2, st2) \<and>
      unblocked_tasks r2 = Some u2 \<and> ''B'' \<in> set u2"
    apply (rule exI[of _ r], rule exI[of _ st'], rule exI[of _ u])
    apply (rule exI[of _ r2], rule exI[of _ st2], rule exI[of _ u2])
    apply (intro conjI)
    apply (rule a(1), rule a(2), rule d(1), rule d(2), rule d(3), rule d(4))
    done
  with h1 show ?thesis by (rule conjI)
qed

lemma set_spread_set: "set (set_spread seen xs) = set xs - set seen"
  by (induction seen xs rule: set_spread.induct) auto

lemma set_spread_distinct: "distinct (set_spread seen xs)"
  by (induction seen xs rule: set_spread.induct) (auto simp: set_spread_set)

lemma normalizePath_plain: "normalizePath ''f.ts'' = ''f.ts''"
  by (simp add: normalizePath_def)

text \<open>
  Claim C2 as stated fails: a1 holds a lease that expires at 10000 and re-acquires it at
  time 5000 for 1000 ms. The extended lease expires at 6000, not at the later of the two.
\<close>

theorem acquireLock_same_owner_expiry_counterexample:
  "map_option expires_at
     (acq_lock (fst (projr (acquireLock (example_store lease_workflow None) ''f.ts'' ''a1''
                               (example_acquire (Some [''bar'']) (Some 1000)) 5000)))) = Some 6000
   \<and> max (expires_at (example_lock ''a1'' [''foo''] 10000)) (5000 + 1000) = 10000"
  by (simp add: acquireLock_def load_def save_def Let_def isLockExpired_def normalizePath_def
        get_property_def toISOString_def
        example_store_def lease_workflow_def example_workflow_def example_lock_def
        example_acquire_def)

text \<open>
  Claim C2, amended. For a path with an unexpired lease owned by the agent, let the duration
  be the requested one, or the configured \<open>lock_timeout\<close> when it is omitted or 0. If \<open>now\<close>
  plus the duration is a valid time (at most 8640000000000000 ms from the epoch), a second
  \<open>acquireLock\<close> by that agent succeeds with the message "Lock extended"; the lease it
  returns and saves has as method set the union of the old methods and the requested ones
  (the wildcard when none are given), without duplicates, and expires at \<open>now\<close> plus the
  duration, whether or not that is later than the old expiry.
\<close>

theorem acquireLock_same_owner_extends:
  assumes "workflow_file st = Some w"
    and "locks w (normalizePath filePath) = Some l"
    and "now < expires_at l"
    and "locked_by l = agentId"
    and "duration = (case acq_timeout options of
                       None \<Rightarrow> lock_timeout (config w)
                     | Some t \<Rightarrow> if t = 0 then lock_timeout (config w) else t)"
    and "\<bar>now + duration\<bar> \<le> 8640000000000000"
  shows "\<exists>r st' w' l'.
           acquireLock st filePath agentId options now = Inr (r, st') \<and>
           acq_success r \<and> acq_message r = ''Lock extended'' \<and> acq_lock r = Some l' \<and>
           workflow_file st' = Some w' \<and> locks w' (normalizePath filePath) = Some l' \<and>
           locked_by l' = agentId \<and>
           set (lock_methods l') =
             set (lock_methods l) \<union>
             set (case acq_methods options of None \<Rightarrow> [''*''] | Some ms \<Rightarrow> ms) \<and>
           distinct (lock_methods l') \<and>
           expires_at l' = now + duration"
  using assms
  by (simp add: acquireLock_def load_def save_def Let_def isLockExpired_def get_property_def
        toISOString_def set_spread_set set_spread_distinct)

theorem acquireLock_same_owner_extends_witness:
  "workflow_file (example_store lease_workflow None) = Some lease_workflow \<and>
   locks lease_workflow (normalizePath ''f.ts'') = Some (example_lock ''a1'' [''foo''] 10000) \<and>
   (5000::int) < expires_at (example_lock ''a1'' [''foo''] 10000) \<and>
   (\<exists>r st' l'. acquireLock (example_store lease_workflow None) ''f.ts'' ''a1''
                  (example_acquire (Some [''bar'']) (Some 1000)) 5000 = Inr (r, st') \<and>
               acq_lock r = Some l' \<and> set (lock_methods l') = {''foo'', ''bar''} \<and>
               expires_at l' = 6000)"
proof -
  have h1: "workflow_file (example_store lease_workflow None) = Some lease_workflow"
    by (simp add: example_store_def)
  have h2: "locks lease_workflow (normalizePath ''f.ts'') = Some (example_lock ''a1'' [''foo''] 10000)"
    by (simp add: lease_workflow_def example_workflow_def normalizePath_def)
  have h3: "(5000::int) < expires_at (example_lock ''a1'' [''foo''] 10000)"
    by (simp add: example_lock_def)
  have h4: "locked_by (example_lock ''a1'' [''foo''] 10000) = ''a1''"
    by (simp add: example_lock_def)
  have d1: "1000 = (case acq_timeout (example_acquire (Some [''bar'']) (Some 1000)) of
                       None \<Rightarrow> lock_timeout (config lease_workflow)
                     | Some t \<Rightarrow> if t = 0 then lock_timeout (config lease_workflow) else t)"
    by (simp add: example_acquire_def)
  have in_range: "\<bar>(5000::int) + 1000\<bar> \<le> 8640000000000000"
    by simp
  note a = acquireLock_same_owner_extends[OF h1 h2 h3 h4 d1 in_range]
  from a obtain r st' w' l' where
    big: "acquireLock (example_store lease_workflow None) ''f.ts'' ''a1''
            (example_acquire (Some [''bar'']) (Some 1000)) 5000 = Inr (r, st') \<and>
          acq_success r \<and> acq_message r = ''Lock extended'' \<and> acq_lock r = Some l' \<and>
          workflow_file st' = Some w' \<and> locks w' (normalizePath ''f.ts'') = Some l' \<and>
          locked_by l' = ''a1'' \<and>
          set (lock_methods l') =
             set (lock_methods (example_lock ''a1'' [''foo''] 10000)) \<union>
             set (case acq_methods (example_acquire (Some [''bar'']) (Some 1000)) of
                    None \<Rightarrow> [''*''] | Some ms \<Rightarrow> ms) \<and>
          distinct (lock_methods l') \<and>
          expires_at l' = 5000 + 1000"
    by (elim exE) (erule that)
  have "acquireLock (example_store lease_workflow None) ''f.ts'' ''a1''
            (example_acquire (Some [''bar'']) (Some 1000)) 5000 = Inr (r, st') \<and>
        acq_lock r = Some l' \<and> set (lock_methods l') = {''foo'', ''bar''} \<and> expires_at l' = 6000"
    using big by (simp add: example_lock_def example_acquire_def insert_commute)
  then have "\<exists>r st' l'. acquireLock (example_store lease_workflow None) ''f.ts'' ''a1''
                  (example_acquire (Some [''bar'']) (Some 1000)) 5000 = Inr (r, st') \<and>
               acq_lock r = Some l' \<and> set (lock_methods l') = {''foo'', ''bar''} \<and>
               expires_at l' = 6000"
    by (intro exI)
  with h1 h2 h3 show ?thesis by (intro conjI)
qed

text \<open>
  When the lease of the path is absent, expired, the agent's own or without conflict, and
  \<open>now\<close> plus the duration is not a valid time, \<open>acquireLock\<close> throws \<open>RangeError\<close>.
\<close>

lemma acquireLock_invalid_expiry:
  assumes "workflow_file st = Some w"
    and "duration = (case acq_timeout options of
                       None \<Rightarrow> lock_timeout (config w)
                     | Some t \<Rightarrow> if t = 0 then lock_timeout (config w) else t)"
    and "\<not> \<bar>now + duration\<bar> \<le> 8640000000000000"
    and "normalizePath filePath \<notin> set object_prototype_members"
    and "\<forall>l. locks w (normalizePath filePath) = Some l \<and> now < expires_at l \<and>
             locked_by l \<noteq> agentId \<longrightarrow>
           \<not> methodsConflict (case acq_methods options of None \<Rightarrow> [''*''] | Some ms \<Rightarrow> ms)
               (lock_methods l)"
  shows "acquireLock st filePath agentId options now = Inl RangeError"
  using assms
  by (auto simp: acquireLock_def createLock_def load_def Let_def isLockExpired_def
        get_property_def toISOString_def split: option.splits)

text \<open>
  Claim C3 as stated fails: a1 holds an unexpired lease on f.ts for the method foo, and a2
  requests the method bar, which does not conflict, for 9000000000000000 ms at time 5000.
  The expiry is beyond the range of dates and the call throws instead of succeeding.
\<close>

theorem acquireLock_other_owner_range_counterexample:
  "methodsConflict [''bar''] (lock_methods (example_lock ''a1'' [''foo''] 10000)) = False \<and>
   acquireLock (example_store lease_workflow None) ''f.ts'' ''a2''
     (example_acquire (Some [''bar'']) (Some 9000000000000000)) 5000 = Inl RangeError"
  by (simp add: acquireLock_def createLock_def load_def Let_def isLockExpired_def
        normalizePath_def get_property_def toISOString_def methodsConflict_def
        example_store_def lease_workflow_def example_workflow_def example_lock_def
        example_acquire_def)

text \<open>
  Claim C3, amended. For a path with an unexpired lease \<open>l\<close> owned by another agent,
  \<open>acquireLock\<close> fails with a conflict exactly when the requested methods or the held ones
  contain the wildcard, or the two sets intersect; the failure leaves the store unchanged and
  reports the holder, its reason, the held methods and the time until the lease expires.
  Without a conflict, if \<open>now\<close> plus the duration (the requested one, or the configured
  \<open>lock_timeout\<close> when it is omitted or 0) is a valid time, at most 8640000000000000 ms from
  the epoch, the call succeeds with a fresh lease owned by the requesting agent, which
  replaces \<open>l\<close> as the one record of that path; the leases of the other paths are unchanged.
\<close>

theorem acquireLock_other_owner:
  assumes "workflow_file st = Some w"
    and "locks w (normalizePath filePath) = Some l"
    and "now < expires_at l"
    and "locked_by l \<noteq> agentId"
    and "requested = (case acq_methods options of None \<Rightarrow> [''*''] | Some ms \<Rightarrow> ms)"
    and "conflict \<longleftrightarrow> ''*'' \<in> set requested \<or> ''*'' \<in> set (lock_methods l) \<or>
                      set requested \<inter> set (lock_methods l) \<noteq> {}"
    and "duration = (case acq_timeout options of
                       None \<Rightarrow> lock_timeout (config w)
                     | Some t \<Rightarrow> if t = 0 then lock_timeout (config w) else t)"
  shows "(conflict \<longrightarrow>
            acquireLock st filePath agentId options now =
              Inr (\<lparr>acq_success = False,
                    acq_message = ''File locked by '' @ locked_by l,
                    acq_lock = None,
                    waitInfo = Some \<lparr>wait_locked_by = locked_by l, wait_reason = lock_reason l,
                                     expires_in_ms = expires_at l - now,
                                     wait_methods = lock_methods l\<rparr>\<rparr>, st)) \<and>
         (\<not> conflict \<and> \<bar>now + duration\<bar> \<le> 8640000000000000 \<longrightarrow>
            (\<exists>r st' w' l'.
               acquireLock st filePath agentId options now = Inr (r, st') \<and>
               acq_success r \<and> acq_lock r = Some l' \<and> waitInfo r = None \<and>
               workflow_file st' = Some w' \<and>
               locks w' (normalizePath filePath) = Some l' \<and>
               (\<forall>p. p \<noteq> normalizePath filePath \<longrightarrow> locks w' p = locks w p) \<and>
               locked_by l' = agentId \<and> locked_at l' = now \<and> lock_methods l' = requested \<and>
               lock_reason l' = acq_reason options \<and> lock_task_id l' = acq_task_id options \<and>
               expires_at l' = now + duration))"
proof -
  have c: "methodsConflict requested (lock_methods l) = conflict"
    using assms(6) by (auto simp: methodsConflict_def list_ex_iff)
  show ?thesis
    using assms(1-5,7) c
    by (simp add: acquireLock_def createLock_def load_def save_def Let_def isLockExpired_def
          get_property_def toISOString_def)
qed

theorem acquireLock_other_owner_witness:
  "workflow_file (example_store lease_workflow None) = Some lease_workflow \<and>
   locks lease_workflow (normalizePath ''f.ts'') = Some (example_lock ''a1'' [''foo''] 10000) \<and>
   (5000::int) < expires_at (example_lock ''a1'' [''foo''] 10000) \<and>
   locked_by (example_lock ''a1'' [''foo''] 10000) \<noteq> ''a2'' \<and>
   acq_success (fst (projr (acquireLock (example_store lease_workflow None) ''f.ts'' ''a2''
                              (example_acquire (Some [''foo'']) None) 5000))) = False \<and>
   (\<exists>r st' w' l'. acquireLock (example_store lease_workflow None) ''f.ts'' ''a2''
                     (example_acquire (Some [''bar'']) None) 5000 = Inr (r, st') \<and>
       acq_success r \<and> workflow_file st' = Some w' \<and>
       locks w' (normalizePath ''f.ts'') = Some l' \<and> locked_by l' = ''a2'' \<and>
       expires_at l' = 185000)"
proof -
  have h1: "workflow_file (example_store lease_workflow None) = Some lease_workflow"
    by (simp add: example_store_def)
  have h2: "locks lease_workflow (normalizePath ''f.ts'') = Some (example_lock ''a1'' [''foo''] 10000)"
    by (simp add: lease_workflow_def example_workflow_def normalizePath_def)
  have h3: "(5000::int) < expires_at (example_lock ''a1'' [''foo''] 10000)"
    by (simp add: example_lock_def)
  have h4: "locked_by (example_lock ''a1'' [''foo''] 10000) \<noteq> ''a2''"
    by (simp add: example_lock_def)
  have r1: "[''foo''] = (case acq_methods (example_acquire (Some [''foo'']) None) of
                          None \<Rightarrow> [''*''] | Some ms \<Rightarrow> ms)"
    and r2: "[''bar''] = (case acq_methods (example_acquire (Some [''bar'']) None) of
                          None \<Rightarrow> [''*''] | Some ms \<Rightarrow> ms)"
    by (simp_all add: example_acquire_def)
  have c1: "True \<longleftrightarrow> ''*'' \<in> set [''foo''] \<or> ''*'' \<in> set (lock_methods (example_lock ''a1'' [''foo''] 10000)) \<or>
                      set [''foo''] \<inter> set (lock_methods (example_lock ''a1'' [''foo''] 10000)) \<noteq> {}"
    and c2: "False \<longleftrightarrow> ''*'' \<in> set [''bar''] \<or> ''*'' \<in> set (lock_methods (example_lock ''a1'' [''foo''] 10000)) \<or>
                      set [''bar''] \<inter> set (lock_methods (example_lock ''a1'' [''foo''] 10000)) \<noteq> {}"
    by (simp_all add: example_lock_def)
  have d1: "180000 = (case acq_timeout (example_acquire (Some [''foo'']) None) of
                       None \<Rightarrow> lock_timeout (config lease_workflow)
                     | Some t \<Rightarrow> if t = 0 then lock_timeout (config lease_workflow) else t)"
    and d2: "180000 = (case acq_timeout (example_acquire (Some [''bar'']) None) of
                       None \<Rightarrow> lock_timeout (config lease_workflow)
                     | Some t \<Rightarrow> if t = 0 then lock_timeout (config lease_workflow) else t)"
    by (simp_all add: example_acquire_def lease_workflow_def example_workflow_def DEFAULT_CONFIG_def)
  have p2: "\<not> False \<and> \<bar>(5000::int) + 180000\<bar> \<le> 8640000000000000"
    by simp
  note a = acquireLock_other_owner[OF h1 h2 h3 h4 r1 c1 d1, THEN conjunct1, THEN mp, OF TrueI]
  note b = acquireLock_other_owner[OF h1 h2 h3 h4 r2 c2 d2, THEN conjunct2, THEN mp, OF p2]
  have "acq_success (fst (projr (acquireLock (example_store lease_workflow None) ''f.ts'' ''a2''
                              (example_acquire (Some [''foo'']) None) 5000))) = False"
    by (simp add: a)
  moreover have "\<exists>r st' w' l'. acquireLock (example_store lease_workflow None) ''f.ts'' ''a2''
                     (example_acquire (Some [''bar'']) None) 5000 = Inr (r, st') \<and>
       acq_success r \<and> workflow_file st' = Some w' \<and>
       locks w' (normalizePath ''f.ts'') = Some l' \<and> locked_by l' = ''a2'' \<and>
       expires_at l' = 185000"
    using b by auto
  ultimately show ?thesis using h1 h2 h3 h4 by (intro conjI)
qed



































text \<open>
  Claim C1 does not hold of the code. Agent a1 holds the tasks T1 and T2 and a lease on g.ts,
  and a2 is the current agent. \<open>takeoverAgent\<close> of a1 succeeds; in the document it saves, T1 is
  assigned to a2, the lease on g.ts is owned by a2 and the claimed tasks of a1 are empty,
  but the claimed tasks of a2 are still empty: the loop added T1 and T2 to the object that
  \<open>getOrCreateCurrentAgent\<close> returned, which is not part of the saved document. When there is
  no current agent, \<open>getOrCreateCurrentAgent\<close> registers a new one, and the document saved
  afterwards assigns T1 to it without containing it.
\<close>

theorem takeoverAgent_claim_set_lost:
  "takeover_success (fst (projr
      (takeoverAgent (example_store takeover_workflow (Some ''a2'')) ''a1'' ''ea_new'' ''s1'' 100))) \<and>
   map_option task_assigned_agent (tasks (the (workflow_file (snd (projr
      (takeoverAgent (example_store takeover_workflow (Some ''a2'')) ''a1'' ''ea_new'' ''s1'' 100)))))
      ''T1'') = Some (Some ''a2'') \<and>
   map_option locked_by (locks (the (workflow_file (snd (projr
      (takeoverAgent (example_store takeover_workflow (Some ''a2'')) ''a1'' ''ea_new'' ''s1'' 100)))))
      ''g.ts'') = Some ''a2'' \<and>
   map_option claimed_tasks (agents (the (workflow_file (snd (projr
      (takeoverAgent (example_store takeover_workflow (Some ''a2'')) ''a1'' ''ea_new'' ''s1'' 100)))))
      ''a1'') = Some [] \<and>
   map_option claimed_tasks (agents (the (workflow_file (snd (projr
      (takeoverAgent (example_store takeover_workflow (Some ''a2'')) ''a1'' ''ea_new'' ''s1'' 100)))))
      ''a2'') = Some [] \<and>
   map_option task_assigned_agent (tasks (the (workflow_file (snd (projr
      (takeoverAgent (example_store takeover_workflow None) ''a1'' ''ea_new'' ''s1'' 100)))))
      ''T1'') = Some (Some ''ea_new'') \<and>
   agents (the (workflow_file (snd (projr
      (takeoverAgent (example_store takeover_workflow None) ''a1'' ''ea_new'' ''s1'' 100)))))
      ''ea_new'' = None"
  by (simp add: takeoverAgent_def getOrCreateCurrentAgent_def getLocalAgentId_def trim_def
        white_space1_def white_space2_def white_space3_def
        saveLocalAgentId_def load_def save_def Let_def truthy_def
        example_store_def takeover_workflow_def example_workflow_def example_agent_def
        example_task_def example_lock_def)

end
